theory Spec2Isabelle
  imports Main "HOL-Library.Product_Lexorder"
begin

unbundle bit_operations_syntax

section \<open>Strings\<close>

text \<open>
  The script \<^verbatim>\<open>scripts/vendor_bird.py\<close> works on Python \<^verbatim>\<open>str\<close> values. A string is
  modelled as a list of characters, each character being a code point below 256. Python's
  \<^verbatim>\<open>str.lower\<close> and \<^verbatim>\<open>str.strip\<close> are written out for these code points.
  A leading underscore is not allowed in an identifier, so \<^verbatim>\<open>_pick_asset\<close> is
  \<open>pick_asset\<close> here, and likewise for the other private functions.
\<close>

text \<open>
  Lowercasing moves the code points 65..90 and 192..222 (without 215) up by 32. Bit 5
  (value 32) is clear in both ranges, so adding 32 is setting that bit.
\<close>

definition lower_char :: "char \<Rightarrow> char" where
  "lower_char c =
     (let n = (of_char c :: nat)
      in if (65 \<le> n \<and> n \<le> 90) \<or> (192 \<le> n \<and> n \<le> 222 \<and> n \<noteq> 215)
         then (case c of Char b0 b1 b2 b3 b4 b5 b6 b7 \<Rightarrow> Char b0 b1 b2 b3 b4 True b6 b7)
         else c)"

definition lower :: "string \<Rightarrow> string" where
  "lower s = map lower_char s"

text \<open>\<^verbatim>\<open>s.startswith(p)\<close>, \<^verbatim>\<open>s.endswith(p)\<close> and \<^verbatim>\<open>t in s\<close>.\<close>

fun startswith :: "string \<Rightarrow> string \<Rightarrow> bool" where
  "startswith s [] = True"
| "startswith [] (p # ps) = False"
| "startswith (c # cs) (p # ps) = (c = p \<and> startswith cs ps)"

definition endswith :: "string \<Rightarrow> string \<Rightarrow> bool" where
  "endswith s p = startswith (rev s) (rev p)"

text \<open>\<^verbatim>\<open>s.endswith((p1, p2, ...))\<close> with a tuple of suffixes.\<close>

definition endswith_any :: "string \<Rightarrow> string list \<Rightarrow> bool" where
  "endswith_any s ps = list_ex (endswith s) ps"

fun contains :: "string \<Rightarrow> string \<Rightarrow> bool" where
  "contains [] t = (t = [])"
| "contains (c # cs) t = (startswith (c # cs) t \<or> contains cs t)"

section \<open>Asset Selector\<close>

text \<open>
  An asset is a JSON object of the release document; every key may be missing or null,
  which \<^verbatim>\<open>a.get(key)\<close> reads as \<^verbatim>\<open>None\<close>.
\<close>

record asset =
  name :: "string option"
  browser_download_url :: "string option"
  size_field :: "int option"

datatype py_error =
    KeyError string
  | URLError
  | JSONDecodeError
  | ReadError
  | BadZipFile
  | RuntimeError string
  | OSError

text \<open>\<^verbatim>\<open>a.get("name") or ""\<close>\<close>

definition name_or_empty :: "asset \<Rightarrow> string" where
  "name_or_empty a = (case name a of None \<Rightarrow> [] | Some s \<Rightarrow> s)"

definition token_match :: "string \<Rightarrow> string list \<Rightarrow> bool" where
  "token_match nm tokens = (let n = lower nm in list_ex (\<lambda>t. contains n t) tokens)"

definition os_tokens_table :: "(string \<times> string list) list" where
  "os_tokens_table =
     [(''darwin'', [''darwin'', ''macos'', ''mac'', ''osx'']),
      (''linux'', [''linux'']),
      (''windows'', [''windows'', ''win''])]"

definition arch_tokens_table :: "(string \<times> string list) list" where
  "arch_tokens_table =
     [(''amd64'', [''amd64'', ''x86_64'', ''x64'']),
      (''arm64'', [''arm64'', ''aarch64''])]"

definition excluded_suffixes :: "string list" where
  "excluded_suffixes = [''.sha256'', ''.sha256sum'', ''.sig'', ''.asc'', ''.txt'', ''.json'']"

text \<open>The loop that collects \<^verbatim>\<open>matches\<close>, with its \<^verbatim>\<open>continue\<close>.\<close>

fun matches_loop :: "string list \<Rightarrow> string list \<Rightarrow> asset list \<Rightarrow> asset list" where
  "matches_loop ost art [] = []"
| "matches_loop ost art (a # as) =
     (let nm = name_or_empty a; low = lower nm
      in if endswith_any low excluded_suffixes then matches_loop ost art as
         else if token_match nm ost \<and> token_match nm art then a # matches_loop ost art as
         else matches_loop ost art as)"

text \<open>\<^verbatim>\<open>int(a.get("size") or 0)\<close>\<close>

definition declared_size :: "asset \<Rightarrow> int" where
  "declared_size a = (case size_field a of None \<Rightarrow> 0 | Some n \<Rightarrow> n)"

definition score :: "asset \<Rightarrow> nat \<times> int" where
  "score a =
     (let nm = lower (name_or_empty a);
          fmt = (if endswith nm ''.tar.gz'' \<or> endswith nm ''.tgz'' then 0
                 else if endswith nm ''.zip'' then 1 else 2);
          sz = declared_size a
      in (fmt, sz))"

text \<open>
  A dictionary lookup with an unknown key raises \<^verbatim>\<open>KeyError\<close>. Python's
  \<^verbatim>\<open>sorted\<close> is a stable sort, as \<open>sort_key\<close> is, and tuples compare
  lexicographically.
\<close>

definition pick_asset :: "asset list \<Rightarrow> string \<Rightarrow> string \<Rightarrow> py_error + asset option" where
  "pick_asset assets goos goarch =
     (case map_of os_tokens_table goos of
        None \<Rightarrow> Inl (KeyError goos)
      | Some ost \<Rightarrow>
         (case map_of arch_tokens_table goarch of
            None \<Rightarrow> Inl (KeyError goarch)
          | Some art \<Rightarrow>
             (let matches = matches_loop ost art assets
              in if matches = [] then Inr None
                 else Inr (Some (hd (sort_key score matches))))))"

text \<open>The test of the loop body, as one predicate on an asset.\<close>

definition is_match :: "string list \<Rightarrow> string list \<Rightarrow> asset \<Rightarrow> bool" where
  "is_match ost art a \<longleftrightarrow>
     \<not> endswith_any (lower (name_or_empty a)) excluded_suffixes
     \<and> token_match (name_or_empty a) ost \<and> token_match (name_or_empty a) art"

text \<open>
  The format rank read from the name as it is written, without lowercasing: the
  reading of the specification that the selector is compared with.
\<close>

definition literal_format_rank :: "string \<Rightarrow> nat" where
  "literal_format_rank nm =
     (if endswith nm ''.tar.gz'' \<or> endswith nm ''.tgz'' then 0
      else if endswith nm ''.zip'' then 1 else 2)"

section \<open>Archive Extractor\<close>

text \<open>
  A path is the list of the components of an absolute path. \<^verbatim>\<open>out_dir / n\<close> splits
  \<^verbatim>\<open>n\<close> at the slashes, drops empty and \<^verbatim>\<open>.\<close> components, and starts again from
  the root when \<^verbatim>\<open>n\<close> is absolute. \<^verbatim>\<open>Path.resolve\<close> is modelled on a file system
  without symbolic links, where it removes each \<^verbatim>\<open>..\<close> together with the component
  before it (at the root, \<^verbatim>\<open>..\<close> stays at the root). The scratch directory is given
  as an absolute path that is already resolved.
\<close>

type_synonym path = "string list"

type_synonym bytes = "nat list"

fun split_on :: "char \<Rightarrow> string \<Rightarrow> string list" where
  "split_on d [] = [[]]"
| "split_on d (c # cs) =
     (if c = d then [] # split_on d cs
      else (case split_on d cs of [] \<Rightarrow> [[c]] | r # rs \<Rightarrow> (c # r) # rs))"

definition parts :: "string \<Rightarrow> string list" where
  "parts s = filter (\<lambda>p. p \<noteq> [] \<and> p \<noteq> ''.'') (split_on (CHR ''/'') s)"

fun resolve_from :: "path \<Rightarrow> string list \<Rightarrow> path" where
  "resolve_from base [] = base"
| "resolve_from base (p # ps) =
     (if p = ''..'' then resolve_from (butlast base) ps else resolve_from (base @ [p]) ps)"

text \<open>\<^verbatim>\<open>(out_dir / n).resolve()\<close>\<close>

definition joined_resolved :: "path \<Rightarrow> string \<Rightarrow> path" where
  "joined_resolved out_dir n =
     resolve_from (if startswith n ''/'' then [] else out_dir) (parts n)"

text \<open>\<^verbatim>\<open>str(p)\<close>\<close>

definition str_path :: "path \<Rightarrow> string" where
  "str_path p = (if p = [] then ''/'' else concat (map (\<lambda>s. CHR ''/'' # s) p))"

text \<open>The guard loop over the member names; \<open>err\<close> builds the exception.\<close>

fun guard_loop :: "(string \<Rightarrow> py_error) \<Rightarrow> path \<Rightarrow> string list \<Rightarrow> py_error option" where
  "guard_loop err out_dir [] = None"
| "guard_loop err out_dir (n # ns) =
     (let p = joined_resolved out_dir n
      in if \<not> startswith (str_path p) (str_path out_dir) then Some (err n)
         else guard_loop err out_dir ns)"

text \<open>
  What the extractor asks the file system to do, when it does not raise: one call of
  \<^verbatim>\<open>tf.extractall(out_dir)\<close>, of \<^verbatim>\<open>zf.extractall(out_dir)\<close>, or of
  \<^verbatim>\<open>write_bytes\<close>.
\<close>

datatype fs_action =
    TarExtractAll bytes path
  | ZipExtractAll bytes path
  | WriteBytes path bytes

section \<open>The world outside the script\<close>

text \<open>
  The network, the archive decoders and the file system are inputs of the model: each
  library call is a function of the world that returns its result or the exception it
  raises. \<open>urlopen_json\<close> is \<^verbatim>\<open>urlopen\<close>, \<^verbatim>\<open>read\<close>, \<^verbatim>\<open>decode\<close> and
  \<^verbatim>\<open>json.loads\<close> together; \<open>tar_getmembers\<close> and \<open>zip_namelist\<close> open the payload and
  list the member names; \<open>extracted_tree\<close> performs the extractor's file-system action and
  gives what \<^verbatim>\<open>root.rglob("*")\<close> then yields, in its order. \<open>traceback_rest\<close>
  gives the lines that the interpreter prints for an uncaught exception after the header
  line of the traceback: the stack frames and the lines of the exception itself.
\<close>

record request =
  url :: string
  headers :: "(string \<times> string) list"

record release =
  rel_assets :: "asset list option"

record entry =
  entry_path :: path
  is_file :: bool
  st_mode :: "nat option"

record world =
  environ :: "string \<Rightarrow> string option"
  urlopen_json :: "request \<Rightarrow> py_error + release"
  urlopen_read :: "request \<Rightarrow> py_error + bytes"
  tar_getmembers :: "bytes \<Rightarrow> py_error + string list"
  zip_namelist :: "bytes \<Rightarrow> py_error + string list"
  mkdir_out_root :: "py_error option"
  mkdtemp :: "string \<Rightarrow> string \<Rightarrow> path"
  extracted_tree :: "fs_action \<Rightarrow> py_error + entry list"
  copy2 :: "path \<Rightarrow> string \<Rightarrow> py_error option"
  traceback_rest :: "py_error \<Rightarrow> string list"

definition extract_to_dir :: "world \<Rightarrow> bytes \<Rightarrow> string \<Rightarrow> path \<Rightarrow> py_error + fs_action" where
  "extract_to_dir w payload asset_name out_dir =
     (let an = lower asset_name
      in if endswith an ''.tar.gz'' \<or> endswith an ''.tgz'' then
           (case tar_getmembers w payload of
              Inl e \<Rightarrow> Inl e
            | Inr names \<Rightarrow>
               (case guard_loop (\<lambda>n. RuntimeError (''unsafe tar member path: '' @ n)) out_dir names of
                  Some e \<Rightarrow> Inl e
                | None \<Rightarrow> Inr (TarExtractAll payload out_dir)))
         else if endswith an ''.zip'' then
           (case zip_namelist w payload of
              Inl e \<Rightarrow> Inl e
            | Inr names \<Rightarrow>
               (case guard_loop (\<lambda>n. RuntimeError (''unsafe zip member path: '' @ n)) out_dir names of
                  Some e \<Rightarrow> Inl e
                | None \<Rightarrow> Inr (ZipExtractAll payload out_dir)))
         else Inr (WriteBytes (out_dir @ [''bird'']) payload))"

text \<open>A path is a descendant of a directory, or the directory itself.\<close>

definition within :: "path \<Rightarrow> path \<Rightarrow> bool" where
  "within p d \<longleftrightarrow> take (length d) p = d"

section \<open>Binary Locator\<close>

text \<open>
  The locator reads the tree through \<^verbatim>\<open>root.rglob("*")\<close>; the list of entries it
  yields is the input here. \<open>st_mode\<close> is \<^verbatim>\<open>None\<close> when \<^verbatim>\<open>p.stat()\<close> raises
  \<^verbatim>\<open>OSError\<close>. \<^verbatim>\<open>stat.S_IXUSR\<close> is 64.
\<close>

definition entry_name :: "entry \<Rightarrow> string" where
  "entry_name e = (if entry_path e = [] then [] else last (entry_path e))"

fun find_preferred :: "string list \<Rightarrow> entry list \<Rightarrow> entry option" where
  "find_preferred preferred [] = None"
| "find_preferred preferred (p # ps) =
     (if \<not> is_file p then find_preferred preferred ps
      else if entry_name p \<in> set preferred then Some p
      else find_preferred preferred ps)"

fun find_executable :: "entry list \<Rightarrow> entry option" where
  "find_executable [] = None"
| "find_executable (p # ps) =
     (case st_mode p of
        None \<Rightarrow> find_executable ps
      | Some m \<Rightarrow>
         (if m AND 64 \<noteq> 0 \<and> startswith (lower (entry_name p)) ''bird'' then Some p
          else find_executable ps))"

definition find_bird_binary :: "entry list \<Rightarrow> bool \<Rightarrow> entry option" where
  "find_bird_binary entries want_windows =
     (let preferred = (if want_windows then [''bird.exe''] else [''bird''])
      in case find_preferred preferred entries of
           Some p \<Rightarrow> Some p
         | None \<Rightarrow>
            (let files = filter is_file entries
             in if length files = 1 then Some (hd files)
                else if \<not> want_windows then find_executable files
                else None))"

section \<open>Network helpers\<close>

text \<open>
  \<^verbatim>\<open>os.environ.get("GITHUB_TOKEN") or os.environ.get("GH_TOKEN") or ""\<close>: an unset
  or empty first variable falls through to the second.
\<close>

definition env_token :: "world \<Rightarrow> string" where
  "env_token w =
     (let gh = (case environ w ''GH_TOKEN'' of None \<Rightarrow> [] | Some t \<Rightarrow> t)
      in case environ w ''GITHUB_TOKEN'' of
           None \<Rightarrow> gh
         | Some t \<Rightarrow> (if t \<noteq> [] then t else gh))"

definition auth_header :: "world \<Rightarrow> (string \<times> string) list" where
  "auth_header w =
     (let token = env_token w
      in if token \<noteq> [] then [(''Authorization'', ''Bearer '' @ token)] else [])"

definition http_json :: "world \<Rightarrow> string \<Rightarrow> py_error + release" where
  "http_json w u =
     urlopen_json w
       \<lparr>url = u,
        headers = [(''Accept'', ''application/vnd.github+json''),
                   (''User-Agent'', ''birdy-vendor-bird'')] @ auth_header w\<rparr>"

definition download :: "world \<Rightarrow> string \<Rightarrow> py_error + bytes" where
  "download w u =
     urlopen_read w
       \<lparr>url = u, headers = [(''User-Agent'', ''birdy-vendor-bird'')] @ auth_header w\<rparr>"

section \<open>Orchestrator\<close>

text \<open>
  \<^verbatim>\<open>str.strip()\<close> removes leading and trailing whitespace; below 256 the whitespace
  code points are 9..13, 28..32, 133 and 160.
\<close>

definition is_space :: "char \<Rightarrow> bool" where
  "is_space c =
     (let n = (of_char c :: nat)
      in (9 \<le> n \<and> n \<le> 13) \<or> (28 \<le> n \<and> n \<le> 32) \<or> n = 133 \<or> n = 160)"

definition strip :: "string \<Rightarrow> string" where
  "strip s = rev (dropWhile is_space (rev (dropWhile is_space s)))"

text \<open>
  The observable effects of a run: the lines printed to the error stream, and the copies
  made by \<^verbatim>\<open>shutil.copy2(bird_path, dst)\<close>, each as destination and source.
\<close>

record state =
  stderr :: "string list"
  staged :: "(string \<times> path) list"

definition print_err :: "state \<Rightarrow> string \<Rightarrow> state" where
  "print_err st msg = st\<lparr>stderr := stderr st @ [msg]\<rparr>"

text \<open>A function ends by \<^verbatim>\<open>return n\<close> or by an exception that nothing catches.\<close>

datatype outcome = Returned int | Raised py_error

text \<open>One iteration of the loop goes on to the next target or ends the run.\<close>

datatype step = Continue state | Stop outcome state

type_synonym target = "string \<times> string \<times> bool"

definition targets :: "bool \<Rightarrow> target list" where
  "targets require_windows =
     [(''darwin'', ''amd64'', True),
      (''darwin'', ''arm64'', True),
      (''linux'', ''amd64'', True),
      (''linux'', ''arm64'', True),
      (''windows'', ''amd64'', require_windows),
      (''windows'', ''arm64'', require_windows)]"

text \<open>\<^verbatim>\<open>out_root / f"bird_{goos}_{goarch}{'.exe' if want_windows else ''}"\<close>\<close>

definition dst_path :: "string \<Rightarrow> string \<Rightarrow> string" where
  "dst_path goos goarch =
     ''bundled/bird/'' @ ''bird_'' @ goos @ ''_'' @ goarch
       @ (if goos = ''windows'' then ''.exe'' else [])"

definition process_target :: "world \<Rightarrow> asset list \<Rightarrow> target \<Rightarrow> state \<Rightarrow> step" where
  "process_target w assets t st =
     (case t of (goos, goarch, required) \<Rightarrow>
        (case pick_asset assets goos goarch of
           Inl e \<Rightarrow> Stop (Raised e) st
         | Inr None \<Rightarrow>
            (let msg = ''vendor_bird: no matching asset for '' @ goos @ ''/'' @ goarch
             in if required then Stop (Returned 1) (print_err st msg)
                else Continue (print_err st (msg @ '' (skipping)'')))
         | Inr (Some a) \<Rightarrow>
            (let u = browser_download_url a; nm = name_or_empty a
             in if u = None \<or> u = Some [] \<or> nm = [] then
                  Stop (Returned 1)
                    (print_err st (''vendor_bird: invalid asset for '' @ goos @ ''/'' @ goarch))
                else
                  (let st1 = print_err st
                         (''vendor_bird: downloading '' @ nm @ '' for '' @ goos @ ''/'' @ goarch)
                   in case download w (the u) of
                        Inl e \<Rightarrow> Stop (Raised e) st1
                      | Inr payload \<Rightarrow>
                         (let tmp = mkdtemp w goos goarch
                          in case extract_to_dir w payload nm tmp of
                               Inl e \<Rightarrow> Stop (Raised e) st1
                             | Inr act \<Rightarrow>
                                (case extracted_tree w act of
                                   Inl e \<Rightarrow> Stop (Raised e) st1
                                 | Inr entries \<Rightarrow>
                                    (let want_windows = (goos = ''windows'')
                                     in case find_bird_binary entries want_windows of
                                          None \<Rightarrow>
                                           (let msg = ''vendor_bird: could not locate bird binary after extracting '' @ nm
                                            in if required then Stop (Returned 1) (print_err st1 msg)
                                               else Continue (print_err st1 (msg @ '' (skipping)'')))
                                        | Some b \<Rightarrow>
                                           (let dst = dst_path goos goarch
                                            in case copy2 w (entry_path b) dst of
                                                 Some e \<Rightarrow> Stop (Raised e) st1
                                               | None \<Rightarrow>
                                                  Continue
                                                    (st1\<lparr>staged := staged st1 @ [(dst, entry_path b)]\<rparr>)))))))))"

fun run_targets :: "world \<Rightarrow> asset list \<Rightarrow> target list \<Rightarrow> state \<Rightarrow> step" where
  "run_targets w assets [] st = Continue st"
| "run_targets w assets (t # ts) st =
     (case process_target w assets t st of
        Stop out st' \<Rightarrow> Stop out st'
      | Continue st' \<Rightarrow> run_targets w assets ts st')"

definition require_windows :: "world \<Rightarrow> bool" where
  "require_windows w \<longleftrightarrow>
     strip (case environ w ''BIRDY_BUNDLE_WINDOWS'' of None \<Rightarrow> ''1'' | Some v \<Rightarrow> v) = ''1''"

definition release_url :: "world \<Rightarrow> string" where
  "release_url w =
     (let repo = (case environ w ''BIRD_REPO'' of None \<Rightarrow> ''steipete/bird'' | Some r \<Rightarrow> r);
          version = strip (case environ w ''BIRD_VERSION'' of None \<Rightarrow> [] | Some v \<Rightarrow> v)
      in if version \<noteq> [] then
           ''https://api.github.com/repos/'' @ repo @ ''/releases/tags/'' @ version
         else ''https://api.github.com/repos/'' @ repo @ ''/releases/latest'')"

definition init_state :: state where
  "init_state = \<lparr>stderr = [], staged = []\<rparr>"

definition main :: "world \<Rightarrow> outcome \<times> state" where
  "main w =
     (case http_json w (release_url w) of
        Inl e \<Rightarrow> (Raised e, init_state)
      | Inr rel \<Rightarrow>
         (let assets = (case rel_assets rel of None \<Rightarrow> [] | Some as \<Rightarrow> as)
          in if assets = [] then
               (Returned 1,
                print_err init_state ''vendor_bird: no assets found in upstream release'')
             else
               (case mkdir_out_root w of
                  Some e \<Rightarrow> (Raised e, init_state)
                | None \<Rightarrow>
                   (case run_targets w assets (targets (require_windows w)) init_state of
                      Stop out st \<Rightarrow> (out, st)
                    | Continue st \<Rightarrow> (Returned 0, st)))))"

text \<open>
  \<^verbatim>\<open>raise SystemExit(main())\<close>: the exit status is the returned number. An exception
  that reaches the top level makes the interpreter print a traceback on the error
  stream, which starts with the header line below and goes on with the frames and the
  exception lines, and exit with status 1.
\<close>

definition traceback_header :: string where
  "traceback_header = ''Traceback (most recent call last):''"

definition uncaught :: "world \<Rightarrow> state \<Rightarrow> py_error \<Rightarrow> int \<times> state" where
  "uncaught w st e =
     (1, st\<lparr>stderr := stderr st @ traceback_header # traceback_rest w e\<rparr>)"

definition script :: "world \<Rightarrow> int \<times> state" where
  "script w =
     (case main w of
        (Returned n, st) \<Rightarrow> (n, st)
      | (Raised e, st) \<Rightarrow> uncaught w st e)"

section \<open>Notions used in the statements\<close>

text \<open>The number of copies staged at a destination, and the destination of a target.\<close>

definition cnt :: "string \<Rightarrow> state \<Rightarrow> nat" where
  "cnt d st = length (filter (\<lambda>p. fst p = d) (staged st))"

definition target_dst :: "target \<Rightarrow> string" where
  "target_dst t = (case t of (goos, goarch, required) \<Rightarrow> dst_path goos goarch)"

text \<open>The targets that are required whatever the environment.\<close>

definition required_targets :: "target list" where
  "required_targets =
     [(''darwin'', ''amd64'', True), (''darwin'', ''arm64'', True),
      (''linux'', ''amd64'', True), (''linux'', ''arm64'', True)]"


text \<open>
  The run has fetched a release with assets, created the output directory, and the loop
  has come to target \<open>t\<close> with state \<open>st\<close>, the targets \<open>pre\<close> before it having all
  continued.
\<close>

definition reaches ::
  "world \<Rightarrow> release \<Rightarrow> asset list \<Rightarrow> target list \<Rightarrow> target \<Rightarrow> target list \<Rightarrow> state \<Rightarrow> bool" where
  "reaches w rel assets pre t rest st \<longleftrightarrow>
     http_json w (release_url w) = Inr rel \<and> rel_assets rel = Some assets \<and> assets \<noteq> []
     \<and> mkdir_out_root w = None
     \<and> targets (require_windows w) = pre @ t # rest
     \<and> run_targets w assets pre init_state = Continue st"

text \<open>The selector has returned a record with a name and a non-empty download URL.\<close>

definition valid_pick :: "asset list \<Rightarrow> string \<Rightarrow> string \<Rightarrow> asset \<Rightarrow> string \<Rightarrow> bool" where
  "valid_pick assets goos goarch a u \<longleftrightarrow>
     pick_asset assets goos goarch = Inr (Some a) \<and> browser_download_url a = Some u
     \<and> u \<noteq> [] \<and> name_or_empty a \<noteq> []"

text \<open>The state after the line that announces the download.\<close>

definition downloading :: "state \<Rightarrow> asset \<Rightarrow> string \<Rightarrow> string \<Rightarrow> state" where
  "downloading st a goos goarch =
     print_err st
       (''vendor_bird: downloading '' @ name_or_empty a @ '' for '' @ goos @ ''/'' @ goarch)"

section \<open>Example inputs\<close>

definition ex_darwin_tgz :: asset where
  "ex_darwin_tgz =
     \<lparr>name = Some ''bird_darwin_amd64.tar.gz'',
      browser_download_url = Some ''https://example.invalid/bird_darwin_amd64.tar.gz'',
      size_field = Some 9000000\<rparr>"

definition ex_darwin_zip :: asset where
  "ex_darwin_zip =
     \<lparr>name = Some ''bird_darwin_amd64.zip'',
      browser_download_url = Some ''https://example.invalid/bird_darwin_amd64.zip'',
      size_field = Some 3000000\<rparr>"

definition ex_upper_tgz :: asset where
  "ex_upper_tgz =
     \<lparr>name = Some ''bird_linux_amd64.TAR.GZ'',
      browser_download_url = Some ''https://example.invalid/bird_linux_amd64.TAR.GZ'',
      size_field = Some 5\<rparr>"

definition ex_linux_zip :: asset where
  "ex_linux_zip =
     \<lparr>name = Some ''bird_linux_amd64.zip'',
      browser_download_url = Some ''https://example.invalid/bird_linux_amd64.zip'',
      size_field = Some 1\<rparr>"

definition ex_tie_first :: asset where
  "ex_tie_first =
     \<lparr>name = Some ''bird-linux-amd64.tar.gz'',
      browser_download_url = Some ''https://example.invalid/bird-linux-amd64.tar.gz'',
      size_field = Some 7\<rparr>"

definition ex_tie_second :: asset where
  "ex_tie_second =
     \<lparr>name = Some ''bird_linux_x86_64.tgz'',
      browser_download_url = Some ''https://example.invalid/bird_linux_x86_64.tgz'',
      size_field = Some 7\<rparr>"

definition ex_dir :: entry where
  "ex_dir = \<lparr>entry_path = [''tmp'', ''scratch'', ''pkg''], is_file = False, st_mode = Some 16877\<rparr>"

definition ex_payload :: entry where
  "ex_payload =
     \<lparr>entry_path = [''tmp'', ''scratch'', ''pkg'', ''payload.bin''], is_file = True,
      st_mode = Some 33188\<rparr>"

definition ex_readme :: entry where
  "ex_readme =
     \<lparr>entry_path = [''tmp'', ''scratch'', ''pkg'', ''README.md''], is_file = True,
      st_mode = Some 33188\<rparr>"

definition ex_bird :: entry where
  "ex_bird =
     \<lparr>entry_path = [''tmp'', ''scratch'', ''pkg'', ''bird''], is_file = True,
      st_mode = Some 33261\<rparr>"

definition ex_bird_cli :: entry where
  "ex_bird_cli =
     \<lparr>entry_path = [''tmp'', ''scratch'', ''pkg'', ''Bird-cli''], is_file = True,
      st_mode = Some 33261\<rparr>"

definition ex_tree :: "fs_action \<Rightarrow> py_error + entry list" where
  "ex_tree act =
     (case act of
        TarExtractAll b d \<Rightarrow> Inr [\<lparr>entry_path = d @ [''bird''], is_file = True, st_mode = Some 33261\<rparr>]
      | ZipExtractAll b d \<Rightarrow> Inr [\<lparr>entry_path = d @ [''bird''], is_file = True, st_mode = Some 33261\<rparr>]
      | WriteBytes p b \<Rightarrow> Inr [\<lparr>entry_path = p, is_file = True, st_mode = Some 33188\<rparr>])"

definition ex_world :: "(string \<Rightarrow> string option) \<Rightarrow> asset list \<Rightarrow> world" where
  "ex_world env as =
     \<lparr>environ = env,
      urlopen_json = (\<lambda>r. Inr \<lparr>rel_assets = Some as\<rparr>),
      urlopen_read = (\<lambda>r. Inr [31, 139, 8]),
      tar_getmembers = (\<lambda>b. Inr [''bird'']),
      zip_namelist = (\<lambda>b. Inr [''bird'']),
      mkdir_out_root = None,
      mkdtemp = (\<lambda>goos goarch. [''tmp'', ''vendor_'' @ goos @ ''_'' @ goarch]),
      extracted_tree = ex_tree,
      copy2 = (\<lambda>src dst. None),
      traceback_rest =
        (\<lambda>e. [''  File scripts/vendor_bird.py, line 226, in <module>'', ''Exception''])\<rparr>"

definition ex_world_evil :: world where
  "ex_world_evil = (ex_world (\<lambda>k. None) [])\<lparr>tar_getmembers := (\<lambda>b. Inr [''../abcevil/x''])\<rparr>"

definition ex_macos_amd64 :: asset where
  "ex_macos_amd64 =
     \<lparr>name = Some ''bird_macos_amd64.tar.gz'', browser_download_url = Some ''https://h/1'',
      size_field = Some 9000000\<rparr>"

definition ex_macos_arm64 :: asset where
  "ex_macos_arm64 =
     \<lparr>name = Some ''bird_macos_arm64.tar.gz'', browser_download_url = Some ''https://h/2'',
      size_field = Some 9000000\<rparr>"

definition ex_linux_amd64 :: asset where
  "ex_linux_amd64 =
     \<lparr>name = Some ''bird_linux_amd64.tar.gz'', browser_download_url = Some ''https://h/3'',
      size_field = Some 9000000\<rparr>"

definition ex_linux_arm64 :: asset where
  "ex_linux_arm64 =
     \<lparr>name = Some ''bird_linux_arm64.tar.gz'', browser_download_url = Some ''https://h/4'',
      size_field = Some 9000000\<rparr>"

definition ex_release :: "asset list" where
  "ex_release = [ex_macos_amd64, ex_macos_arm64, ex_linux_amd64, ex_linux_arm64]"

definition ex_env :: "string option \<Rightarrow> string \<Rightarrow> string option" where
  "ex_env v k = (if k = ''BIRDY_BUNDLE_WINDOWS'' then v else None)"



definition ex_windows_nourl :: asset where
  "ex_windows_nourl =
     \<lparr>name = Some ''bird_windows_amd64.zip'', browser_download_url = None,
      size_field = Some 4000000\<rparr>"

definition ex_release_nourl :: "asset list" where
  "ex_release_nourl = ex_release @ [ex_windows_nourl]"

definition ex_state4 :: state where
  "ex_state4 =
     \<lparr>stderr =
        [''vendor_bird: downloading bird_macos_amd64.tar.gz for darwin/amd64'',
         ''vendor_bird: downloading bird_macos_arm64.tar.gz for darwin/arm64'',
         ''vendor_bird: downloading bird_linux_amd64.tar.gz for linux/amd64'',
         ''vendor_bird: downloading bird_linux_arm64.tar.gz for linux/arm64''],
      staged =
        [(''bundled/bird/bird_darwin_amd64'', [''tmp'', ''vendor_darwin_amd64'', ''bird'']),
         (''bundled/bird/bird_darwin_arm64'', [''tmp'', ''vendor_darwin_arm64'', ''bird'']),
         (''bundled/bird/bird_linux_amd64'', [''tmp'', ''vendor_linux_amd64'', ''bird'']),
         (''bundled/bird/bird_linux_arm64'', [''tmp'', ''vendor_linux_arm64'', ''bird''])]\<rparr>"

definition ex_world_empty :: world where
  "ex_world_empty = ex_world (ex_env None) []"

definition ex_state_skipped :: state where
  "ex_state_skipped =
     print_err
       (print_err ex_state4 ''vendor_bird: no matching asset for windows/amd64 (skipping)'')
       ''vendor_bird: no matching asset for windows/arm64 (skipping)''"

definition ex_darwin_arm64 :: asset where
  "ex_darwin_arm64 =
     \<lparr>name = Some ''bird_darwin_arm64.tar.gz'', browser_download_url = Some ''https://h/5'',
      size_field = Some 9000000\<rparr>"

definition ex_release_darwin :: "asset list" where
  "ex_release_darwin = [ex_darwin_tgz, ex_darwin_arm64, ex_linux_amd64, ex_linux_arm64]"

definition ex_state_darwin :: state where
  "ex_state_darwin =
     \<lparr>stderr =
        [''vendor_bird: downloading bird_darwin_amd64.tar.gz for darwin/amd64'',
         ''vendor_bird: downloading bird_darwin_arm64.tar.gz for darwin/arm64'',
         ''vendor_bird: downloading bird_linux_amd64.tar.gz for linux/amd64'',
         ''vendor_bird: downloading bird_linux_arm64.tar.gz for linux/arm64'',
         ''vendor_bird: downloading bird_darwin_amd64.tar.gz for windows/amd64'',
         ''vendor_bird: downloading bird_darwin_arm64.tar.gz for windows/arm64''],
      staged =
        [(''bundled/bird/bird_darwin_amd64'', [''tmp'', ''vendor_darwin_amd64'', ''bird'']),
         (''bundled/bird/bird_darwin_arm64'', [''tmp'', ''vendor_darwin_arm64'', ''bird'']),
         (''bundled/bird/bird_linux_amd64'', [''tmp'', ''vendor_linux_amd64'', ''bird'']),
         (''bundled/bird/bird_linux_arm64'', [''tmp'', ''vendor_linux_arm64'', ''bird'']),
         (''bundled/bird/bird_windows_amd64.exe'', [''tmp'', ''vendor_windows_amd64'', ''bird'']),
         (''bundled/bird/bird_windows_arm64.exe'', [''tmp'', ''vendor_windows_arm64'', ''bird''])]\<rparr>"

definition ex_windows_zip :: asset where
  "ex_windows_zip =
     \<lparr>name = Some ''bird_windows_amd64.zip'', browser_download_url = Some ''https://h/6'',
      size_field = Some 4000000\<rparr>"

definition ex_release_win :: "asset list" where
  "ex_release_win = ex_release @ [ex_windows_zip]"

text \<open>A world in which the download of the windows archive fails.\<close>

definition ex_world_down :: world where
  "ex_world_down =
     (ex_world (ex_env (Some ''0'')) ex_release_win)
       \<lparr>urlopen_read := (\<lambda>r. if url r = ''https://h/6'' then Inl URLError else Inr [31, 139, 8])\<rparr>"

text \<open>A world in which the release document cannot be fetched.\<close>

definition ex_world_offline :: world where
  "ex_world_offline = (ex_world (ex_env None) ex_release)\<lparr>urlopen_json := (\<lambda>r. Inl URLError)\<rparr>"

section \<open>Facts about strings and sorting\<close>

lemmas selector_eval =
  pick_asset_def os_tokens_table_def arch_tokens_table_def name_or_empty_def lower_def
  lower_char_def endswith_any_def endswith_def excluded_suffixes_def token_match_def
  score_def declared_size_def is_match_def literal_format_rank_def Let_def

lemma startswith_iff: "startswith s p \<longleftrightarrow> (\<exists>r. s = p @ r)"
  by (induction s p rule: startswith.induct) auto

lemma matches_loop_filter: "matches_loop ost art as = filter (is_match ost art) as"
  by (induction as) (auto simp: is_match_def Let_def)

lemma sort_key_not_Nil: "xs \<noteq> [] \<Longrightarrow> sort_key f xs \<noteq> []"
  by (metis length_sort length_0_conv)

lemma hd_sort_key_min:
  assumes "xs \<noteq> []"
  shows "hd (sort_key f xs) \<in> set xs \<and> (\<forall>y \<in> set xs. f (hd (sort_key f xs)) \<le> f y)"
proof -
  from assms obtain z zs where zs: "sort_key f xs = z # zs"
    using sort_key_not_Nil [of xs f] by (cases "sort_key f xs") auto
  have "sorted (map f (sort_key f xs))" by (rule sorted_sort_key)
  with zs have le: "\<forall>y \<in> set zs. f z \<le> f y" by simp
  have "set (sort_key f xs) = set xs" by simp
  with zs have "set xs = insert z (set zs)" by simp
  with le zs show ?thesis by auto
qed

lemma find_filter_Cons: "filter P xs = y # ys \<Longrightarrow> List.find P xs = Some y"
  by (induction xs) (auto split: if_splits)

lemma hd_sort_key_first:
  assumes "xs \<noteq> []"
  shows "List.find (\<lambda>y. f y = f (hd (sort_key f xs))) xs = Some (hd (sort_key f xs))"
proof -
  define h where "h = hd (sort_key f xs)"
  from assms obtain zs where zs: "sort_key f xs = h # zs"
    using sort_key_not_Nil [of xs f] unfolding h_def by (cases "sort_key f xs") auto
  have "filter (\<lambda>y. f y = f h) xs = filter (\<lambda>y. f y = f h) (sort_key f xs)"
    by (simp only: sort_key_stable)
  also have "\<dots> = h # filter (\<lambda>y. f y = f h) zs" by (simp only: zs) simp
  finally have "List.find (\<lambda>y. f y = f h) xs = Some h" by (rule find_filter_Cons)
  then show ?thesis by (simp only: h_def)
qed

lemma find_filter: "List.find P (filter Q xs) = List.find (\<lambda>x. Q x \<and> P x) xs"
  by (induction xs) auto

lemma find_Some_split:
  assumes "List.find P xs = Some a"
  shows "\<exists>pre post. xs = pre @ a # post \<and> P a \<and> (\<forall>b \<in> set pre. \<not> P b)"
  using assms
proof (induction xs)
  case Nil
  then show ?case by simp
next
  case (Cons x xs)
  show ?case
  proof (cases "P x")
    case True
    with Cons.prems have "x = a" by simp
    with True have "x # xs = [] @ a # xs \<and> P a \<and> (\<forall>b \<in> set []. \<not> P b)" by simp
    then show ?thesis by blast
  next
    case False
    with Cons.prems have "List.find P xs = Some a" by simp
    from Cons.IH [OF this] obtain pre post
      where "xs = pre @ a # post" "P a" "\<forall>b \<in> set pre. \<not> P b" by blast
    with False have "x # xs = (x # pre) @ a # post \<and> P a \<and> (\<forall>b \<in> set (x # pre). \<not> P b)"
      by simp
    then show ?thesis by blast
  qed
qed

section \<open>Facts about the selector\<close>



lemma pick_asset_Some:
  assumes "pick_asset assets goos goarch = Inr (Some a)"
  obtains ost art where "map_of os_tokens_table goos = Some ost"
    and "map_of arch_tokens_table goarch = Some art"
    and "matches_loop ost art assets \<noteq> []"
    and "a = hd (sort_key score (matches_loop ost art assets))"
  using assms by (auto simp: pick_asset_def Let_def split: option.splits if_splits)

lemma score_eq:
  "score a = (literal_format_rank (lower (name_or_empty a)), declared_size a)"
  by (simp add: score_def literal_format_rank_def Let_def)



lemmas locator_eval =
  find_bird_binary_def entry_name_def lower_def lower_char_def Let_def
  ex_dir_def ex_payload_def ex_readme_def ex_bird_def ex_bird_cli_def

lemma find_preferred_find:
  "find_preferred preferred es = List.find (\<lambda>p. is_file p \<and> entry_name p \<in> set preferred) es"
  by (induction es) auto

lemma find_executable_find:
  "find_executable es =
     List.find (\<lambda>p. case st_mode p of None \<Rightarrow> False
                  | Some m \<Rightarrow> m AND 64 \<noteq> 0 \<and> startswith (lower (entry_name p)) ''bird'') es"
  by (induction es) (auto split: option.splits)

lemmas extractor_eval =
  extract_to_dir_def joined_resolved_def parts_def str_path_def within_def
  lower_def lower_char_def endswith_def Let_def

lemma str_path_head: "\<exists>r. str_path p = CHR ''/'' # r"
  by (cases p) (auto simp: str_path_def)

lemma within_startswith:
  assumes "within p d"
  shows "startswith (str_path p) (str_path d)"
proof (cases d)
  case Nil
  with str_path_head [of p] show ?thesis by (auto simp: str_path_def)
next
  case (Cons x xs)
  from assms have "p = d @ drop (length d) p"
    unfolding within_def by (metis append_take_drop_id)
  then obtain r where p: "p = d @ r" ..
  with Cons show ?thesis by (auto simp: str_path_def startswith_iff)
qed

lemma guard_loop_None_iff:
  "guard_loop err out_dir ns = None \<longleftrightarrow>
     (\<forall>n \<in> set ns. startswith (str_path (joined_resolved out_dir n)) (str_path out_dir))"
  by (induction ns) (auto simp: Let_def)

lemma guard_loop_accepts_within:
  assumes "\<forall>n \<in> set ns. within (joined_resolved out_dir n) out_dir"
  shows "guard_loop err out_dir ns = None"
  using assms by (simp add: guard_loop_None_iff within_startswith)

lemma guard_loop_Some:
  assumes "guard_loop err out_dir ns = Some e"
  shows "\<exists>n \<in> set ns. e = err n
          \<and> \<not> startswith (str_path (joined_resolved out_dir n)) (str_path out_dir)"
  using assms by (induction ns) (auto simp: Let_def split: if_splits)

lemma guard_rejects_dotdot_evil:
  "guard_loop RuntimeError [''tmp'', ''abc''] [''bird'', ''../../evil''] = Some (RuntimeError ''../../evil'')"
  by (simp add: extractor_eval)

lemma process_target_no_asset:
  assumes "pick_asset assets goos goarch = Inr None"
  shows "process_target w assets (goos, goarch, required) st =
     (if required
      then Stop (Returned 1)
             (print_err st (''vendor_bird: no matching asset for '' @ goos @ ''/'' @ goarch))
      else Continue
             (print_err st (''vendor_bird: no matching asset for '' @ goos @ ''/'' @ goarch
                              @ '' (skipping)'')))"
  using assms by (simp add: process_target_def Let_def)

lemma process_target_invalid:
  assumes "pick_asset assets goos goarch = Inr (Some a)"
    and "browser_download_url a = None \<or> browser_download_url a = Some [] \<or> name_or_empty a = []"
  shows "process_target w assets (goos, goarch, required) st =
     Stop (Returned 1) (print_err st (''vendor_bird: invalid asset for '' @ goos @ ''/'' @ goarch))"
  using assms by (auto simp: process_target_def Let_def)


lemma process_target_Continue:
  assumes "process_target w assets (goos, goarch, required) st = Continue st'"
  shows "(\<not> required \<and> staged st' = staged st)
       \<or> (\<exists>src. staged st' = staged st @ [(dst_path goos goarch, src)])"
  using assms
  by (auto simp: process_target_def Let_def print_err_def
           split: sum.splits option.splits if_splits)

lemma process_target_Stop:
  assumes "process_target w assets (goos, goarch, required) st = Stop out st'"
  shows "staged st' = staged st
       \<and> ((out = Returned 1 \<and> stderr st' \<noteq> [] \<and> startswith (last (stderr st')) ''vendor_bird: '')
          \<or> (\<exists>e. out = Raised e))"
  using assms
  by (auto simp: process_target_def Let_def print_err_def
           split: sum.splits option.splits if_splits)


lemma run_targets_append:
  "run_targets w assets pre st = Continue st1 \<Longrightarrow>
     run_targets w assets (pre @ ts) st = run_targets w assets ts st1"
  by (induction pre arbitrary: st) (auto split: step.splits)

lemma run_targets_Stop:
  assumes "run_targets w assets ts st = Stop out st'"
  shows "(out = Returned 1 \<and> stderr st' \<noteq> [] \<and> startswith (last (stderr st')) ''vendor_bird: '')
       \<or> (\<exists>e. out = Raised e)"
  using assms
proof (induction ts arbitrary: st)
  case Nil
  then show ?case by simp
next
  case (Cons t ts)
  obtain goos goarch required where t: "t = (goos, goarch, required)" by (cases t) auto
  show ?case
  proof (cases "process_target w assets t st")
    case (Continue st1)
    with Cons.prems have "run_targets w assets ts st1 = Stop out st'" by simp
    then show ?thesis by (rule Cons.IH)
  next
    case (Stop out1 st1)
    with Cons.prems have "out1 = out" "st1 = st'" by simp_all
    with Stop t have "process_target w assets (goos, goarch, required) st = Stop out st'" by simp
    from process_target_Stop [OF this] show ?thesis by blast
  qed
qed

lemma process_target_cnt:
  assumes "process_target w assets (goos, goarch, required) st = Continue st'"
  shows "(\<forall>d. d \<noteq> dst_path goos goarch \<longrightarrow> cnt d st' = cnt d st)
       \<and> cnt (dst_path goos goarch) st' \<le> cnt (dst_path goos goarch) st + 1
       \<and> (required \<longrightarrow> cnt (dst_path goos goarch) st' = cnt (dst_path goos goarch) st + 1)"
  using process_target_Continue [OF assms] by (auto simp: cnt_def)

lemma run_targets_cnt:
  assumes "run_targets w assets ts st = Continue st'" and "distinct (map target_dst ts)"
  shows "(\<forall>d. d \<notin> target_dst ` set ts \<longrightarrow> cnt d st' = cnt d st)
       \<and> (\<forall>t \<in> set ts. cnt (target_dst t) st' \<le> cnt (target_dst t) st + 1
             \<and> (snd (snd t) \<longrightarrow> cnt (target_dst t) st' = cnt (target_dst t) st + 1))"
  using assms
proof (induction ts arbitrary: st)
  case Nil
  then show ?case by simp
next
  case (Cons t ts)
  obtain goos goarch required where t: "t = (goos, goarch, required)" by (cases t) auto
  from Cons.prems(1) obtain st1
    where step: "process_target w assets (goos, goarch, required) st = Continue st1"
      and rest: "run_targets w assets ts st1 = Continue st'"
    by (auto simp: t split: step.splits)
  from Cons.prems(2) have dist: "distinct (map target_dst ts)"
    and fresh: "target_dst t \<notin> target_dst ` set ts" by simp_all
  note s = process_target_cnt [OF step]
  note r = Cons.IH [OF rest dist]
  have td: "target_dst t = dst_path goos goarch" by (simp add: t target_dst_def)
  have 1: "\<forall>d. d \<notin> target_dst ` set (t # ts) \<longrightarrow> cnt d st' = cnt d st"
    using s r td by auto
  have 2: "cnt (target_dst t) st' \<le> cnt (target_dst t) st + 1
        \<and> (snd (snd t) \<longrightarrow> cnt (target_dst t) st' = cnt (target_dst t) st + 1)"
  proof -
    from r fresh have "cnt (target_dst t) st' = cnt (target_dst t) st1" by blast
    with s show ?thesis by (auto simp: t target_dst_def)
  qed
  have 3: "\<forall>t' \<in> set ts. cnt (target_dst t') st' \<le> cnt (target_dst t') st + 1
        \<and> (snd (snd t') \<longrightarrow> cnt (target_dst t') st' = cnt (target_dst t') st + 1)"
  proof
    fix t' assume t': "t' \<in> set ts"
    with fresh have "target_dst t' \<noteq> dst_path goos goarch" using td by force
    with s have e: "cnt (target_dst t') st1 = cnt (target_dst t') st" by blast
    from r t' have "cnt (target_dst t') st' \<le> cnt (target_dst t') st1 + 1
        \<and> (snd (snd t') \<longrightarrow> cnt (target_dst t') st' = cnt (target_dst t') st1 + 1)"
      by blast
    with e show "cnt (target_dst t') st' \<le> cnt (target_dst t') st + 1
        \<and> (snd (snd t') \<longrightarrow> cnt (target_dst t') st' = cnt (target_dst t') st + 1)"
      by simp
  qed
  from 1 2 3 show ?case by simp
qed

lemma distinct_target_dst: "distinct (map target_dst (targets rw))"
  by (simp add: targets_def target_dst_def dst_path_def)

lemma main_loop:
  assumes "http_json w (release_url w) = Inr rel" and "rel_assets rel = Some assets"
    and "assets \<noteq> []" and "mkdir_out_root w = None"
  shows "main w =
     (case run_targets w assets (targets (require_windows w)) init_state of
        Stop out st \<Rightarrow> (out, st) | Continue st \<Rightarrow> (Returned 0, st))"
  using assms by (simp add: main_def)

lemma main_Returned_0:
  assumes "main w = (Returned 0, st)"
  shows "\<exists>rel assets. http_json w (release_url w) = Inr rel \<and> rel_assets rel = Some assets
      \<and> assets \<noteq> [] \<and> mkdir_out_root w = None
      \<and> run_targets w assets (targets (require_windows w)) init_state = Continue st"
proof -
  from assms obtain rel where rel: "http_json w (release_url w) = Inr rel"
    by (cases "http_json w (release_url w)") (auto simp: main_def)
  from assms rel obtain assets where as: "rel_assets rel = Some assets" "assets \<noteq> []"
    by (cases "rel_assets rel") (auto simp: main_def Let_def split: if_splits)
  from assms rel as have mk: "mkdir_out_root w = None"
    by (cases "mkdir_out_root w") (auto simp: main_def)
  from assms have m: "(case run_targets w assets (targets (require_windows w)) init_state of
        Stop out st \<Rightarrow> (out, st) | Continue st \<Rightarrow> (Returned 0, st)) = (Returned 0, st)"
    by (simp add: main_loop [OF rel as mk])
  have "run_targets w assets (targets (require_windows w)) init_state = Continue st"
  proof (cases "run_targets w assets (targets (require_windows w)) init_state")
    case (Continue st1)
    with m show ?thesis by simp
  next
    case (Stop out st1)
    with m have "out = Returned 0" by simp
    with run_targets_Stop [OF Stop] show ?thesis by simp
  qed
  with rel as mk show ?thesis by blast
qed

lemma script_0:
  assumes "script w = (0, st)"
  shows "main w = (Returned 0, st)"
  using assms
  by (auto simp: script_def uncaught_def split: prod.splits outcome.splits)

lemma main_not_0:
  assumes "main w = (out, st)" and "out \<noteq> Returned 0"
  shows "(out = Returned 1 \<and> stderr st \<noteq> [] \<and> startswith (last (stderr st)) ''vendor_bird: '')
       \<or> (\<exists>e. out = Raised e)"
proof (cases "http_json w (release_url w)")
  case (Inl e)
  with assms show ?thesis by (auto simp: main_def)
next
  case (Inr rel)
  show ?thesis
  proof (cases "(case rel_assets rel of None \<Rightarrow> [] | Some as \<Rightarrow> as) = []")
    case True
    with Inr assms(1) have "out = Returned 1"
      "st = print_err init_state ''vendor_bird: no assets found in upstream release''"
      by (simp_all add: main_def)
    then show ?thesis by (simp add: print_err_def)
  next
    case False
    then obtain assets where as: "rel_assets rel = Some assets" "assets \<noteq> []"
      by (cases "rel_assets rel") auto
    show ?thesis
    proof (cases "mkdir_out_root w")
      case (Some e)
      with Inr as assms(1) show ?thesis by (auto simp: main_def)
    next
      case None
      note m = main_loop [OF Inr as None]
      show ?thesis
      proof (cases "run_targets w assets (targets (require_windows w)) init_state")
        case (Continue st1)
        with m assms show ?thesis by auto
      next
        case (Stop out1 st1)
        with m assms(1) have "out1 = out" "st1 = st" by simp_all
        with run_targets_Stop [OF Stop] show ?thesis by simp
      qed
    qed
  qed
qed

lemmas asset_defs =
  ex_macos_amd64_def ex_macos_arm64_def ex_linux_amd64_def ex_linux_arm64_def ex_release_def


lemma ex_no_windows_asset:
  "pick_asset ex_release ''windows'' ''amd64'' = Inr None"
  "pick_asset ex_release ''windows'' ''arm64'' = Inr None"
  by (simp_all add: selector_eval asset_defs)


lemma targets_split:
  "targets rw = required_targets @ [(''windows'', ''amd64'', rw), (''windows'', ''arm64'', rw)]"
  by (simp add: targets_def required_targets_def)

lemma ex_world_tree:
  "\<exists>act m. extract_to_dir (ex_world env rel) payload nm d = Inr act
     \<and> extracted_tree (ex_world env rel) act
         = Inr [\<lparr>entry_path = d @ [''bird''], is_file = True, st_mode = Some m\<rparr>]"
proof -
  have "within (joined_resolved d ''bird'') d"
    by (simp add: joined_resolved_def parts_def within_def)
  then have g: "startswith (str_path (joined_resolved d ''bird'')) (str_path d)"
    by (rule within_startswith)
  show ?thesis
    by (simp add: extract_to_dir_def ex_world_def ex_tree_def g Let_def)
qed

lemma ex_world_find:
  "find_bird_binary [\<lparr>entry_path = d @ [''bird''], is_file = True, st_mode = Some m\<rparr>] ww
     = Some \<lparr>entry_path = d @ [''bird''], is_file = True, st_mode = Some m\<rparr>"
  by (simp add: find_bird_binary_def entry_name_def)

lemma ex_world_process:
  assumes "pick_asset assets goos goarch = Inr (Some a)"
    and "browser_download_url a = Some u" and "u \<noteq> []" and "name_or_empty a \<noteq> []"
  shows "process_target (ex_world env rel) assets (goos, goarch, required) st =
     Continue
       \<lparr>stderr = stderr st @ [''vendor_bird: downloading '' @ name_or_empty a @ '' for ''
                               @ goos @ ''/'' @ goarch],
        staged = staged st @ [(dst_path goos goarch,
                               [''tmp'', ''vendor_'' @ goos @ ''_'' @ goarch, ''bird''])]\<rparr>"
proof -
  define d where "d = [''tmp'', ''vendor_'' @ goos @ ''_'' @ goarch]"
  have dl: "download (ex_world env rel) u = Inr [31, 139, 8]"
    by (simp add: download_def ex_world_def)
  have mk: "mkdtemp (ex_world env rel) goos goarch = d"
    by (simp add: ex_world_def d_def)
  from ex_world_tree [of env rel "[31, 139, 8]" "name_or_empty a" d]
  obtain act m where x: "extract_to_dir (ex_world env rel) [31, 139, 8] (name_or_empty a) d = Inr act"
    and t: "extracted_tree (ex_world env rel) act
         = Inr [\<lparr>entry_path = d @ [''bird''], is_file = True, st_mode = Some m\<rparr>]"
    by blast
  have cp: "copy2 (ex_world env rel) p q = None" for p q by (simp add: ex_world_def)
  have "process_target (ex_world env rel) assets (goos, goarch, required) st =
     Continue
       \<lparr>stderr = stderr st @ [''vendor_bird: downloading '' @ name_or_empty a @ '' for ''
                               @ goos @ ''/'' @ goarch],
        staged = staged st @ [(dst_path goos goarch, d @ [''bird''])]\<rparr>"
    using assms
    by (simp add: process_target_def dl mk x t ex_world_find cp print_err_def Let_def)
  then show ?thesis by (simp add: d_def)
qed

lemma ex_release_picks:
  "pick_asset ex_release ''darwin'' ''amd64'' = Inr (Some ex_macos_amd64)"
  "pick_asset ex_release ''darwin'' ''arm64'' = Inr (Some ex_macos_arm64)"
  "pick_asset ex_release ''linux'' ''amd64'' = Inr (Some ex_linux_amd64)"
  "pick_asset ex_release ''linux'' ''arm64'' = Inr (Some ex_linux_arm64)"
  by (simp_all add: selector_eval asset_defs)

lemma ex_release_nourl_picks:
  "pick_asset ex_release_nourl ''darwin'' ''amd64'' = Inr (Some ex_macos_amd64)"
  "pick_asset ex_release_nourl ''darwin'' ''arm64'' = Inr (Some ex_macos_arm64)"
  "pick_asset ex_release_nourl ''linux'' ''amd64'' = Inr (Some ex_linux_amd64)"
  "pick_asset ex_release_nourl ''linux'' ''arm64'' = Inr (Some ex_linux_arm64)"
  "pick_asset ex_release_nourl ''windows'' ''amd64'' = Inr (Some ex_windows_nourl)"
  by (simp_all add: selector_eval asset_defs ex_release_nourl_def ex_windows_nourl_def)

lemma ex_asset_fields:
  "browser_download_url ex_macos_amd64 = Some ''https://h/1''"
  "browser_download_url ex_macos_arm64 = Some ''https://h/2''"
  "browser_download_url ex_linux_amd64 = Some ''https://h/3''"
  "browser_download_url ex_linux_arm64 = Some ''https://h/4''"
  "name_or_empty ex_macos_amd64 = ''bird_macos_amd64.tar.gz''"
  "name_or_empty ex_macos_arm64 = ''bird_macos_arm64.tar.gz''"
  "name_or_empty ex_linux_amd64 = ''bird_linux_amd64.tar.gz''"
  "name_or_empty ex_linux_arm64 = ''bird_linux_arm64.tar.gz''"
  by (simp_all add: asset_defs name_or_empty_def)

lemma ex_run_required:
  "run_targets (ex_world env rel) ex_release required_targets init_state = Continue ex_state4"
  by (simp add: required_targets_def ex_release_picks [THEN ex_world_process] ex_asset_fields
        init_state_def ex_state4_def dst_path_def)

lemma ex_run_required_nourl:
  "run_targets (ex_world env rel) ex_release_nourl required_targets init_state = Continue ex_state4"
  by (simp add: required_targets_def ex_release_nourl_picks [THEN ex_world_process] ex_asset_fields
        init_state_def ex_state4_def dst_path_def)

lemma ex_not_required: "\<not> require_windows (ex_world (ex_env (Some ''0'')) rel)"
  by (simp add: require_windows_def ex_world_def ex_env_def strip_def is_space_def)

lemma ex_http_json:
  "http_json (ex_world env as) (release_url (ex_world env as)) = Inr \<lparr>rel_assets = Some as\<rparr>"
  by (simp add: http_json_def ex_world_def)

lemma ex_mkdir: "mkdir_out_root (ex_world env as) = None"
  by (simp add: ex_world_def)

lemma ex_release_not_Nil: "ex_release \<noteq> []"
  by (simp add: ex_release_def)

lemma ex_script_optional:
  "script (ex_world (ex_env (Some ''0'')) ex_release) = (0, ex_state_skipped)"
proof -
  define w where "w = ex_world (ex_env (Some ''0'')) ex_release"
  have nr: "\<not> require_windows w" unfolding w_def by (rule ex_not_required)
  have run: "run_targets w ex_release required_targets init_state = Continue ex_state4"
    unfolding w_def by (rule ex_run_required)
  have "run_targets w ex_release (targets (require_windows w)) init_state
      = Continue ex_state_skipped"
    using nr
    by (simp add: targets_split run_targets_append [OF run] process_target_no_asset
          ex_no_windows_asset ex_state_skipped_def)
  moreover have "main w =
     (case run_targets w ex_release (targets (require_windows w)) init_state of
        Stop out st \<Rightarrow> (out, st) | Continue st \<Rightarrow> (Returned 0, st))"
    unfolding w_def by (rule main_loop [OF ex_http_json _ ex_release_not_Nil ex_mkdir]) simp
  ultimately have "main w = (Returned 0, ex_state_skipped)" by simp
  then show ?thesis unfolding w_def by (simp add: script_def)
qed

lemma ex_release_darwin_picks:
  "pick_asset ex_release_darwin ''darwin'' ''amd64'' = Inr (Some ex_darwin_tgz)"
  "pick_asset ex_release_darwin ''darwin'' ''arm64'' = Inr (Some ex_darwin_arm64)"
  "pick_asset ex_release_darwin ''linux'' ''amd64'' = Inr (Some ex_linux_amd64)"
  "pick_asset ex_release_darwin ''linux'' ''arm64'' = Inr (Some ex_linux_arm64)"
  "pick_asset ex_release_darwin ''windows'' ''amd64'' = Inr (Some ex_darwin_tgz)"
  "pick_asset ex_release_darwin ''windows'' ''arm64'' = Inr (Some ex_darwin_arm64)"
  by (simp_all add: selector_eval asset_defs ex_release_darwin_def ex_darwin_tgz_def
        ex_darwin_arm64_def)

lemma ex_darwin_fields:
  "browser_download_url ex_darwin_tgz = Some ''https://example.invalid/bird_darwin_amd64.tar.gz''"
  "browser_download_url ex_darwin_arm64 = Some ''https://h/5''"
  "name_or_empty ex_darwin_tgz = ''bird_darwin_amd64.tar.gz''"
  "name_or_empty ex_darwin_arm64 = ''bird_darwin_arm64.tar.gz''"
  by (simp_all add: ex_darwin_tgz_def ex_darwin_arm64_def name_or_empty_def)

lemma ex_run_darwin:
  "run_targets (ex_world env rel) ex_release_darwin (targets False) init_state
     = Continue ex_state_darwin"
  by (simp add: targets_def ex_release_darwin_picks [THEN ex_world_process] ex_asset_fields
        ex_darwin_fields init_state_def ex_state_darwin_def dst_path_def)

lemma ex_script_darwin:
  "script (ex_world (ex_env (Some ''0'')) ex_release_darwin) = (0, ex_state_darwin)"
proof -
  define w where "w = ex_world (ex_env (Some ''0'')) ex_release_darwin"
  have nr: "\<not> require_windows w" unfolding w_def by (rule ex_not_required)
  have "run_targets w ex_release_darwin (targets (require_windows w)) init_state
      = Continue ex_state_darwin"
    using nr unfolding w_def by (simp add: ex_run_darwin)
  moreover have "ex_release_darwin \<noteq> []" by (simp add: ex_release_darwin_def)
  then have "main w =
     (case run_targets w ex_release_darwin (targets (require_windows w)) init_state of
        Stop out st \<Rightarrow> (out, st) | Continue st \<Rightarrow> (Returned 0, st))"
    unfolding w_def by (intro main_loop [OF ex_http_json _ _ ex_mkdir]) simp_all
  ultimately have "main w = (Returned 0, ex_state_darwin)" by simp
  then show ?thesis unfolding w_def by (simp add: script_def)
qed

lemma ex_script_required:
  assumes "require_windows (ex_world env ex_release)"
  shows "script (ex_world env ex_release)
     = (1, print_err ex_state4 ''vendor_bird: no matching asset for windows/amd64'')"
proof -
  define w where "w = ex_world env ex_release"
  have run: "run_targets w ex_release required_targets init_state = Continue ex_state4"
    unfolding w_def by (rule ex_run_required)
  have "run_targets w ex_release (targets (require_windows w)) init_state
      = Stop (Returned 1) (print_err ex_state4 ''vendor_bird: no matching asset for windows/amd64'')"
    using assms unfolding w_def [symmetric]
    by (simp add: targets_split run_targets_append [OF run] process_target_no_asset
          ex_no_windows_asset)
  moreover have "main w =
     (case run_targets w ex_release (targets (require_windows w)) init_state of
        Stop out st \<Rightarrow> (out, st) | Continue st \<Rightarrow> (Returned 0, st))"
    unfolding w_def by (rule main_loop [OF ex_http_json _ ex_release_not_Nil ex_mkdir]) simp
  ultimately have "main w
      = (Returned 1, print_err ex_state4 ''vendor_bird: no matching asset for windows/amd64'')"
    by simp
  then show ?thesis unfolding w_def by (simp add: script_def)
qed

lemma pick_asset_Nil: "pick_asset [] ''darwin'' ''amd64'' = Inr None"
  by (simp add: pick_asset_def os_tokens_table_def arch_tokens_table_def)

lemma required_dsts:
  "target_dst ` set required_targets =
     {''bundled/bird/bird_darwin_amd64'', ''bundled/bird/bird_darwin_arm64'',
      ''bundled/bird/bird_linux_amd64'', ''bundled/bird/bird_linux_arm64''}"
  by (simp add: required_targets_def target_dst_def dst_path_def)

lemma distinct_required_dst: "distinct (map target_dst required_targets)"
  by (simp add: required_targets_def target_dst_def dst_path_def)

lemma cnt_pos: "p \<in> set (staged st) \<Longrightarrow> 0 < cnt (fst p) st"
  by (auto simp: cnt_def filter_empty_conv)

lemma reaches_stop:
  assumes "reaches w rel assets pre (goos, goarch, required) rest st"
    and "process_target w assets (goos, goarch, required) st = Stop out st'"
  shows "script w = (case out of Returned n \<Rightarrow> (n, st') | Raised e \<Rightarrow> uncaught w st' e)"
proof -
  from assms(1) have h: "http_json w (release_url w) = Inr rel" "rel_assets rel = Some assets"
    "assets \<noteq> []" "mkdir_out_root w = None"
    and ts: "targets (require_windows w) = pre @ (goos, goarch, required) # rest"
    and pre: "run_targets w assets pre init_state = Continue st"
    by (simp_all add: reaches_def)
  have "run_targets w assets (targets (require_windows w)) init_state = Stop out st'"
    unfolding ts by (simp add: run_targets_append [OF pre] assms(2))
  with main_loop [OF h] have "main w = (out, st')" by simp
  then show ?thesis by (simp add: script_def split: outcome.splits)
qed

lemma process_target_valid:
  assumes "valid_pick assets goos goarch a u"
  shows "process_target w assets (goos, goarch, required) st =
     (case download w u of
        Inl e \<Rightarrow> Stop (Raised e) (downloading st a goos goarch)
      | Inr payload \<Rightarrow>
         (case extract_to_dir w payload (name_or_empty a) (mkdtemp w goos goarch) of
            Inl e \<Rightarrow> Stop (Raised e) (downloading st a goos goarch)
          | Inr act \<Rightarrow>
             (case extracted_tree w act of
                Inl e \<Rightarrow> Stop (Raised e) (downloading st a goos goarch)
              | Inr entries \<Rightarrow>
                 (case find_bird_binary entries (goos = ''windows'') of
                    None \<Rightarrow>
                     (if required
                      then Stop (Returned 1)
                             (print_err (downloading st a goos goarch)
                                (''vendor_bird: could not locate bird binary after extracting ''
                                   @ name_or_empty a))
                      else Continue
                             (print_err (downloading st a goos goarch)
                                (''vendor_bird: could not locate bird binary after extracting ''
                                   @ name_or_empty a @ '' (skipping)'')))
                  | Some b \<Rightarrow>
                     (case copy2 w (entry_path b) (dst_path goos goarch) of
                        Some e \<Rightarrow> Stop (Raised e) (downloading st a goos goarch)
                      | None \<Rightarrow>
                         Continue
                           ((downloading st a goos goarch)
                              \<lparr>staged := staged (downloading st a goos goarch)
                                 @ [(dst_path goos goarch, entry_path b)]\<rparr>))))))"
  using assms
  by (simp add: valid_pick_def process_target_def downloading_def Let_def
           split: sum.splits option.splits)

lemma ex_down_process:
  assumes "pick_asset assets goos goarch = Inr (Some a)"
    and "browser_download_url a = Some u" and "u \<noteq> []" and "u \<noteq> ''https://h/6''"
    and "name_or_empty a \<noteq> []"
  shows "process_target ex_world_down assets (goos, goarch, required) st =
     Continue
       \<lparr>stderr = stderr st @ [''vendor_bird: downloading '' @ name_or_empty a @ '' for ''
                               @ goos @ ''/'' @ goarch],
        staged = staged st @ [(dst_path goos goarch,
                               [''tmp'', ''vendor_'' @ goos @ ''_'' @ goarch, ''bird''])]\<rparr>"
proof -
  define w0 where "w0 = ex_world (ex_env (Some ''0'')) ex_release_win"
  define d where "d = [''tmp'', ''vendor_'' @ goos @ ''_'' @ goarch]"
  have v: "valid_pick assets goos goarch a u" using assms by (simp add: valid_pick_def)
  have dl: "download ex_world_down u = Inr [31, 139, 8]"
    using assms(4) by (simp add: download_def ex_world_down_def ex_world_def)
  have mk: "mkdtemp ex_world_down goos goarch = d"
    by (simp add: ex_world_down_def ex_world_def d_def)
  have same: "extract_to_dir ex_world_down p n x = extract_to_dir w0 p n x"
    "extracted_tree ex_world_down = extracted_tree w0" for p n x
    by (simp_all add: extract_to_dir_def ex_world_down_def w0_def Let_def)
  from ex_world_tree [of "ex_env (Some ''0'')" ex_release_win "[31, 139, 8]" "name_or_empty a" d]
  obtain act m where x: "extract_to_dir ex_world_down [31, 139, 8] (name_or_empty a) d = Inr act"
    and t: "extracted_tree ex_world_down act
         = Inr [\<lparr>entry_path = d @ [''bird''], is_file = True, st_mode = Some m\<rparr>]"
    unfolding same w0_def by blast
  have cp: "copy2 ex_world_down p q = None" for p q
    by (simp add: ex_world_down_def ex_world_def)
  have "process_target ex_world_down assets (goos, goarch, required) st =
     Continue
       \<lparr>stderr = stderr st @ [''vendor_bird: downloading '' @ name_or_empty a @ '' for ''
                               @ goos @ ''/'' @ goarch],
        staged = staged st @ [(dst_path goos goarch, d @ [''bird''])]\<rparr>"
    by (simp add: process_target_valid [OF v] dl mk x t ex_world_find cp downloading_def
          print_err_def)
  then show ?thesis by (simp add: d_def)
qed

lemma ex_release_win_picks:
  "pick_asset ex_release_win ''darwin'' ''amd64'' = Inr (Some ex_macos_amd64)"
  "pick_asset ex_release_win ''darwin'' ''arm64'' = Inr (Some ex_macos_arm64)"
  "pick_asset ex_release_win ''linux'' ''amd64'' = Inr (Some ex_linux_amd64)"
  "pick_asset ex_release_win ''linux'' ''arm64'' = Inr (Some ex_linux_arm64)"
  "pick_asset ex_release_win ''windows'' ''amd64'' = Inr (Some ex_windows_zip)"
  by (simp_all add: selector_eval asset_defs ex_release_win_def ex_windows_zip_def)

lemma ex_run_required_down:
  "run_targets ex_world_down ex_release_win required_targets init_state = Continue ex_state4"
  by (simp add: required_targets_def ex_release_win_picks [THEN ex_down_process] ex_asset_fields
        init_state_def ex_state4_def dst_path_def)

lemma ex_down_not_required: "\<not> require_windows ex_world_down"
  by (simp add: require_windows_def ex_world_down_def ex_world_def ex_env_def strip_def
        is_space_def)

lemma ex_down_reaches:
  "reaches ex_world_down \<lparr>rel_assets = Some ex_release_win\<rparr> ex_release_win required_targets
     (''windows'', ''amd64'', False) [(''windows'', ''arm64'', False)] ex_state4"
  using ex_down_not_required
  by (simp add: reaches_def ex_run_required_down targets_split)
     (simp add: http_json_def ex_world_down_def ex_world_def ex_release_win_def)

lemma require_windows_unset:
  "environ w ''BIRDY_BUNDLE_WINDOWS'' = None \<Longrightarrow> require_windows w"
  by (simp add: require_windows_def strip_def is_space_def)

lemma require_windows_set:
  "environ w ''BIRDY_BUNDLE_WINDOWS'' = Some v \<Longrightarrow> require_windows w \<longleftrightarrow> strip v = ''1''"
  by (simp add: require_windows_def)

lemma unset_no_windows_asset_exits_1:
  assumes "environ w ''BIRDY_BUNDLE_WINDOWS'' = None"
    and "http_json w (release_url w) = Inr rel" and "rel_assets rel = Some assets"
    and "mkdir_out_root w = None"
    and "pick_asset assets ''windows'' ''amd64'' = Inr None"
    and "run_targets w assets required_targets init_state = Continue st"
  shows "script w = (1, print_err st ''vendor_bird: no matching asset for windows/amd64'')"
proof -
  have rw: "require_windows w" using assms(1) by (rule require_windows_unset)
  have ne: "assets \<noteq> []"
  proof
    assume "assets = []"
    with assms(6) have "run_targets w [] required_targets init_state = Continue st" by simp
    then show False
      by (simp add: required_targets_def process_target_no_asset [OF pick_asset_Nil])
  qed
  have "run_targets w assets (targets (require_windows w)) init_state
      = Stop (Returned 1) (print_err st ''vendor_bird: no matching asset for windows/amd64'')"
    using rw
    by (simp add: targets_split run_targets_append [OF assms(6)]
          process_target_no_asset [OF assms(5)])
  with main_loop [OF assms(2,3) ne assms(4)]
  have "main w = (Returned 1, print_err st ''vendor_bird: no matching asset for windows/amd64'')"
    by simp
  then show ?thesis by (simp add: script_def)
qed

lemma windows_best_effort_when_set_to_other_value:
  assumes "environ w ''BIRDY_BUNDLE_WINDOWS'' = Some v" and "strip v \<noteq> ''1''"
    and "http_json w (release_url w) = Inr rel" and "rel_assets rel = Some assets"
    and "mkdir_out_root w = None"
    and "pick_asset assets ''windows'' ''amd64'' = Inr None"
    and "pick_asset assets ''windows'' ''arm64'' = Inr None"
    and "run_targets w assets required_targets init_state = Continue st"
  shows "targets (require_windows w)
           = required_targets @ [(''windows'', ''amd64'', False), (''windows'', ''arm64'', False)]
       \<and> (\<exists>st'. script w = (0, st') \<and> staged st' = staged st
             \<and> (\<forall>p \<in> set (staged st'). \<not> startswith (fst p) ''bundled/bird/bird_windows_'')
             \<and> (\<forall>t \<in> set required_targets.
                   length (filter (\<lambda>p. fst p = target_dst t) (staged st')) = 1))"
proof -
  from assms(1,2) have nr: "\<not> require_windows w" by (simp add: require_windows_def)
  then have ts: "targets (require_windows w)
      = required_targets @ [(''windows'', ''amd64'', False), (''windows'', ''arm64'', False)]"
    by (simp add: targets_split)
  define st' where "st' =
     print_err
       (print_err st ''vendor_bird: no matching asset for windows/amd64 (skipping)'')
       ''vendor_bird: no matching asset for windows/arm64 (skipping)''"
  have ne: "assets \<noteq> []"
  proof
    assume "assets = []"
    with assms(8) have "run_targets w [] required_targets init_state = Continue st" by simp
    then show False
      by (simp add: required_targets_def process_target_no_asset [OF pick_asset_Nil])
  qed
  have "run_targets w assets (targets (require_windows w)) init_state = Continue st'"
    unfolding ts
    by (simp add: run_targets_append [OF assms(8)] process_target_no_asset [OF assms(6)]
          process_target_no_asset [OF assms(7)] st'_def)
  with main_loop [OF assms(3,4) ne assms(5)] have "main w = (Returned 0, st')" by simp
  then have sc: "script w = (0, st')" by (simp add: script_def)
  have sg: "staged st' = staged st" by (simp add: st'_def print_err_def)
  note c = run_targets_cnt [OF assms(8) distinct_required_dst]
  have z: "cnt d init_state = 0" for d by (simp add: cnt_def init_state_def)
  have nowin: "\<forall>p \<in> set (staged st'). \<not> startswith (fst p) ''bundled/bird/bird_windows_''"
  proof
    fix p assume "p \<in> set (staged st')"
    then have "p \<in> set (staged st)" by (simp add: sg)
    then have pos: "0 < cnt (fst p) st" by (rule cnt_pos)
    have "fst p \<in> target_dst ` set required_targets"
    proof (rule ccontr)
      assume "fst p \<notin> target_dst ` set required_targets"
      with c have "cnt (fst p) st = cnt (fst p) init_state" by blast
      with pos z show False by simp
    qed
    then have "fst p \<in> {''bundled/bird/bird_darwin_amd64'', ''bundled/bird/bird_darwin_arm64'',
      ''bundled/bird/bird_linux_amd64'', ''bundled/bird/bird_linux_arm64''}"
      by (simp only: required_dsts)
    then show "\<not> startswith (fst p) ''bundled/bird/bird_windows_''" by auto
  qed
  have once: "\<forall>t \<in> set required_targets.
      length (filter (\<lambda>p. fst p = target_dst t) (staged st')) = 1"
  proof
    fix t assume t: "t \<in> set required_targets"
    then have "snd (snd t)" by (auto simp: required_targets_def)
    with c t have "cnt (target_dst t) st = cnt (target_dst t) init_state + 1" by blast
    then show "length (filter (\<lambda>p. fst p = target_dst t) (staged st')) = 1"
      unfolding z by (simp add: cnt_def sg)
  qed
  from ts sc sg nowin once show ?thesis by blast
qed

lemma windows_flag_stripped_and_win_matches_darwin:
  "script (ex_world (ex_env (Some '' 1'')) ex_release)
       = (1, print_err ex_state4 ''vendor_bird: no matching asset for windows/amd64'')
   \<and> script (ex_world (ex_env (Some ''0'')) ex_release_darwin) = (0, ex_state_darwin)
   \<and> (''bundled/bird/bird_windows_amd64.exe'', [''tmp'', ''vendor_windows_amd64'', ''bird''])
       \<in> set (staged ex_state_darwin)"
proof -
  have r2: "require_windows (ex_world (ex_env (Some '' 1'')) ex_release)"
    by (simp add: require_windows_def ex_world_def ex_env_def strip_def is_space_def)
  have s: "(''bundled/bird/bird_windows_amd64.exe'', [''tmp'', ''vendor_windows_amd64'', ''bird''])
       \<in> set (staged ex_state_darwin)"
    by (simp add: ex_state_darwin_def)
  from ex_script_required [OF r2] ex_script_darwin s show ?thesis by (intro conjI)
qed

section \<open>Claims about the Asset Selector\<close>



text \<open>
  Claim C9. The windows alias token win is a substring of darwin. For the asset list
  that holds only bird_darwin_amd64.tar.gz and the target windows/amd64, the selector
  returns that asset, although its name does not contain windows: the darwin name passes
  the windows token test.
\<close>

theorem win_token_inside_darwin:
  "name ex_darwin_tgz = Some ''bird_darwin_amd64.tar.gz''
   \<and> pick_asset [ex_darwin_tgz] ''windows'' ''amd64'' = Inr (Some ex_darwin_tgz)
   \<and> contains ''darwin'' ''win''
   \<and> \<not> contains (lower (name_or_empty ex_darwin_tgz)) ''windows''
   \<and> token_match (name_or_empty ex_darwin_tgz) [''windows'', ''win'']"
  by (simp add: selector_eval ex_darwin_tgz_def)

text \<open>
  Claim C3, as written, with the format rank read from the name as it is: it fails.
  For the two linux/amd64 assets bird_linux_amd64.TAR.GZ (size 5) and
  bird_linux_amd64.zip (size 1), the name of the first does not end in .tar.gz or .tgz,
  so its tuple is (2, 5), above the tuple (1, 1) of the zip asset; the selector
  returns the first, because it tests the suffix on the lowercased name.
\<close>

theorem pick_asset_literal_rank_counterexample:
  "pick_asset [ex_upper_tgz, ex_linux_zip] ''linux'' ''amd64'' = Inr (Some ex_upper_tgz)
   \<and> is_match [''linux''] [''amd64'', ''x86_64'', ''x64''] ex_linux_zip
   \<and> (literal_format_rank (name_or_empty ex_linux_zip), declared_size ex_linux_zip)
       < (literal_format_rank (name_or_empty ex_upper_tgz), declared_size ex_upper_tgz)"
  by (simp add: selector_eval ex_upper_tgz_def ex_linux_zip_def)

text \<open>
  Claim C3, amended: the format rank is taken from the lowercased name. Whenever some
  asset of the list matches the target, the selector returns a matching asset whose
  tuple (format rank, declared size) is least among the matches, where the format rank
  is 0 when the lowercased name ends in .tar.gz or .tgz, 1 when it ends in .zip, and 2
  otherwise. In particular, when a match of rank 0 exists the returned asset has rank 0
  whatever the sizes, and among matches of the returned asset's rank none has a smaller
  declared size.
\<close>

theorem pick_asset_minimal_rank:
  assumes "map_of os_tokens_table goos = Some ost"
    and "map_of arch_tokens_table goarch = Some art"
    and "\<exists>b \<in> set assets. is_match ost art b"
  shows "\<exists>a. pick_asset assets goos goarch = Inr (Some a)
    \<and> a \<in> set assets \<and> is_match ost art a
    \<and> (\<forall>b \<in> set assets. is_match ost art b \<longrightarrow>
          (literal_format_rank (lower (name_or_empty a)), declared_size a)
            \<le> (literal_format_rank (lower (name_or_empty b)), declared_size b)
          \<and> (literal_format_rank (lower (name_or_empty b)) = 0
               \<longrightarrow> literal_format_rank (lower (name_or_empty a)) = 0)
          \<and> (literal_format_rank (lower (name_or_empty b))
                = literal_format_rank (lower (name_or_empty a))
               \<longrightarrow> declared_size a \<le> declared_size b))"
proof -
  define ms where "ms = matches_loop ost art assets"
  define a where "a = hd (sort_key score ms)"
  have ms: "ms = filter (is_match ost art) assets"
    by (simp add: ms_def matches_loop_filter)
  with assms(3) have ne: "ms \<noteq> []" by (auto simp: filter_empty_conv)
  have pick: "pick_asset assets goos goarch = Inr (Some a)"
    using assms(1,2) ne by (simp add: pick_asset_def Let_def ms_def a_def)
  from hd_sort_key_min [OF ne, of score]
  have mem: "a \<in> set ms" and least: "\<forall>b \<in> set ms. score a \<le> score b"
    by (simp_all add: a_def)
  from mem have a_in: "a \<in> set assets" and a_m: "is_match ost art a" by (simp_all add: ms)
  have "\<forall>b \<in> set assets. is_match ost art b \<longrightarrow>
          (literal_format_rank (lower (name_or_empty a)), declared_size a)
            \<le> (literal_format_rank (lower (name_or_empty b)), declared_size b)
          \<and> (literal_format_rank (lower (name_or_empty b)) = 0
               \<longrightarrow> literal_format_rank (lower (name_or_empty a)) = 0)
          \<and> (literal_format_rank (lower (name_or_empty b))
                = literal_format_rank (lower (name_or_empty a))
               \<longrightarrow> declared_size a \<le> declared_size b)"
  proof (intro ballI impI)
    fix b assume "b \<in> set assets" "is_match ost art b"
    then have "b \<in> set ms" by (simp add: ms)
    with least have "score a \<le> score b" by blast
    then have le: "(literal_format_rank (lower (name_or_empty a)), declared_size a)
            \<le> (literal_format_rank (lower (name_or_empty b)), declared_size b)"
      by (simp only: score_eq)
    then have "literal_format_rank (lower (name_or_empty a))
                 \<le> literal_format_rank (lower (name_or_empty b))"
      and "literal_format_rank (lower (name_or_empty b))
                = literal_format_rank (lower (name_or_empty a))
               \<Longrightarrow> declared_size a \<le> declared_size b"
      by (auto simp: less_eq_prod_def)
    with le show "(literal_format_rank (lower (name_or_empty a)), declared_size a)
            \<le> (literal_format_rank (lower (name_or_empty b)), declared_size b)
          \<and> (literal_format_rank (lower (name_or_empty b)) = 0
               \<longrightarrow> literal_format_rank (lower (name_or_empty a)) = 0)
          \<and> (literal_format_rank (lower (name_or_empty b))
                = literal_format_rank (lower (name_or_empty a))
               \<longrightarrow> declared_size a \<le> declared_size b)"
      by simp
  qed
  with pick a_in a_m show ?thesis by blast
qed

theorem pick_asset_minimal_rank_witness:
  "map_of os_tokens_table ''darwin'' = Some [''darwin'', ''macos'', ''mac'', ''osx'']
   \<and> map_of arch_tokens_table ''amd64'' = Some [''amd64'', ''x86_64'', ''x64'']
   \<and> is_match [''darwin'', ''macos'', ''mac'', ''osx''] [''amd64'', ''x86_64'', ''x64''] ex_darwin_zip
   \<and> pick_asset [ex_darwin_zip, ex_darwin_tgz] ''darwin'' ''amd64'' = Inr (Some ex_darwin_tgz)
   \<and> declared_size ex_darwin_zip < declared_size ex_darwin_tgz"
proof -
  have h1: "map_of os_tokens_table ''darwin'' = Some [''darwin'', ''macos'', ''mac'', ''osx'']"
    by (simp add: os_tokens_table_def)
  have h2: "map_of arch_tokens_table ''amd64'' = Some [''amd64'', ''x86_64'', ''x64'']"
    by (simp add: arch_tokens_table_def)
  have m: "is_match [''darwin'', ''macos'', ''mac'', ''osx''] [''amd64'', ''x86_64'', ''x64''] ex_darwin_zip"
    by (simp add: selector_eval ex_darwin_zip_def)
  then have h3: "\<exists>b \<in> set [ex_darwin_zip, ex_darwin_tgz].
      is_match [''darwin'', ''macos'', ''mac'', ''osx''] [''amd64'', ''x86_64'', ''x64''] b"
    by simp
  have r0: "literal_format_rank (lower (name_or_empty ex_darwin_tgz)) = 0"
    by (simp add: selector_eval ex_darwin_tgz_def)
  have r1: "literal_format_rank (lower (name_or_empty ex_darwin_zip)) = 1"
    by (simp add: selector_eval ex_darwin_zip_def)
  from pick_asset_minimal_rank [OF h1 h2 h3] obtain a
    where p: "pick_asset [ex_darwin_zip, ex_darwin_tgz] ''darwin'' ''amd64'' = Inr (Some a)"
      and "a \<in> set [ex_darwin_zip, ex_darwin_tgz]"
      and "\<forall>b \<in> set [ex_darwin_zip, ex_darwin_tgz].
             is_match [''darwin'', ''macos'', ''mac'', ''osx''] [''amd64'', ''x86_64'', ''x64''] b \<longrightarrow>
             (literal_format_rank (lower (name_or_empty b)) = 0
               \<longrightarrow> literal_format_rank (lower (name_or_empty a)) = 0)"
    by blast
  have tm: "is_match [''darwin'', ''macos'', ''mac'', ''osx''] [''amd64'', ''x86_64'', ''x64''] ex_darwin_tgz"
    by (simp add: selector_eval ex_darwin_tgz_def)
  have "a = ex_darwin_tgz"
    using \<open>a \<in> set [ex_darwin_zip, ex_darwin_tgz]\<close>
      \<open>\<forall>b \<in> set [ex_darwin_zip, ex_darwin_tgz]. _\<close> tm r0 r1 by auto
  with p h1 h2 m show ?thesis by (simp add: declared_size_def ex_darwin_zip_def ex_darwin_tgz_def)
qed

text \<open>
  Claim C10. The selector is a function of the asset list and the target. The asset it
  returns is the earliest asset of the input list among the matches with the least
  tuple: every match before it in the list has a strictly greater score, and every
  match after it has a score at least as great. So, of two matches with the same least
  tuple, the one that comes first in the list is returned, and exchanging them changes
  the result.
\<close>

theorem pick_asset_earliest_among_ties:
  assumes "pick_asset assets goos goarch = Inr (Some a)"
  shows "\<exists>ost art pre post.
      map_of os_tokens_table goos = Some ost \<and> map_of arch_tokens_table goarch = Some art
    \<and> assets = pre @ a # post \<and> is_match ost art a
    \<and> (\<forall>b \<in> set pre. is_match ost art b \<longrightarrow> score a < score b)
    \<and> (\<forall>b \<in> set post. is_match ost art b \<longrightarrow> score a \<le> score b)"
proof -
  from assms obtain ost art where ost: "map_of os_tokens_table goos = Some ost"
    and art: "map_of arch_tokens_table goarch = Some art"
    and ne: "matches_loop ost art assets \<noteq> []"
    and a: "a = hd (sort_key score (matches_loop ost art assets))"
    by (rule pick_asset_Some)
  define ms where "ms = filter (is_match ost art) assets"
  have ms: "matches_loop ost art assets = ms" by (simp add: ms_def matches_loop_filter)
  from ne a have ne': "ms \<noteq> []" and a': "a = hd (sort_key score ms)" by (simp_all add: ms)
  from hd_sort_key_min [OF ne', of score]
  have least: "\<forall>b \<in> set ms. score a \<le> score b" by (simp add: a')
  from hd_sort_key_first [OF ne', of score]
  have "List.find (\<lambda>y. score y = score a) ms = Some a" by (simp add: a')
  then have "List.find (\<lambda>x. is_match ost art x \<and> score x = score a) assets = Some a"
    by (simp add: ms_def find_filter)
  from find_Some_split [OF this] obtain pre post
    where split: "assets = pre @ a # post" and am: "is_match ost art a"
      and before: "\<forall>b \<in> set pre. \<not> (is_match ost art b \<and> score b = score a)"
    by blast
  have pre: "\<forall>b \<in> set pre. is_match ost art b \<longrightarrow> score a < score b"
  proof (intro ballI impI)
    fix b assume b: "b \<in> set pre" and m: "is_match ost art b"
    then have "b \<in> set ms" by (simp add: ms_def split)
    with least have "score a \<le> score b" by blast
    moreover from before b m have "score b \<noteq> score a" by blast
    ultimately show "score a < score b" by simp
  qed
  have post: "\<forall>b \<in> set post. is_match ost art b \<longrightarrow> score a \<le> score b"
  proof (intro ballI impI)
    fix b assume "b \<in> set post" and "is_match ost art b"
    then have "b \<in> set ms" by (simp add: ms_def split)
    with least show "score a \<le> score b" by blast
  qed
  from ost art split am pre post show ?thesis by blast
qed

theorem pick_asset_earliest_among_ties_witness:
  "pick_asset [ex_tie_first, ex_tie_second] ''linux'' ''amd64'' = Inr (Some ex_tie_first)
   \<and> pick_asset [ex_tie_second, ex_tie_first] ''linux'' ''amd64'' = Inr (Some ex_tie_second)
   \<and> score ex_tie_first = score ex_tie_second \<and> ex_tie_first \<noteq> ex_tie_second
   \<and> is_match [''linux''] [''amd64'', ''x86_64'', ''x64''] ex_tie_first"
proof -
  have p1: "pick_asset [ex_tie_first, ex_tie_second] ''linux'' ''amd64'' = Inr (Some ex_tie_first)"
    by (simp add: selector_eval ex_tie_first_def ex_tie_second_def)
  have p2: "pick_asset [ex_tie_second, ex_tie_first] ''linux'' ''amd64'' = Inr (Some ex_tie_second)"
    by (simp add: selector_eval ex_tie_first_def ex_tie_second_def)
  have s: "score ex_tie_first = score ex_tie_second"
    by (simp add: selector_eval ex_tie_first_def ex_tie_second_def)
  have d: "ex_tie_first \<noteq> ex_tie_second"
    by (simp add: ex_tie_first_def ex_tie_second_def)
  from pick_asset_earliest_among_ties [OF p1] obtain ost art
    where "map_of os_tokens_table ''linux'' = Some ost"
      and "map_of arch_tokens_table ''amd64'' = Some art"
      and m: "is_match ost art ex_tie_first"
    by blast
  then have "ost = [''linux'']" "art = [''amd64'', ''x86_64'', ''x64'']"
    by (simp_all add: os_tokens_table_def arch_tokens_table_def)
  with m have "is_match [''linux''] [''amd64'', ''x86_64'', ''x64''] ex_tie_first" by simp
  with p1 p2 s d show ?thesis by (intro conjI)
qed

section \<open>Claims about the Binary Locator\<close>

text \<open>
  Claim C5. For every listing of the scratch tree and every windows flag, the locator
  applies its strategies in this order. (1) When a regular file named exactly bird.exe
  (windows) or bird (otherwise) exists, the first such file of the listing is returned.
  (2) Otherwise, when the tree holds exactly one regular file, that file is returned
  whatever its name. (3) Otherwise, when the windows flag is false, the result is the
  first regular file whose mode can be read and has the owner-execute bit set, and whose
  lowercased name starts with bird, if there is one. (4) Otherwise nothing is found:
  with the windows flag set the result is then always \<^verbatim>\<open>None\<close>.
\<close>

theorem find_bird_binary_strategies:
  fixes entries :: "entry list" and want_windows :: bool
  defines "wanted \<equiv> (if want_windows then ''bird.exe'' else ''bird'')"
    and "files \<equiv> filter is_file entries"
  shows "(\<forall>p. List.find (\<lambda>e. is_file e \<and> entry_name e = wanted) entries = Some p
            \<longrightarrow> find_bird_binary entries want_windows = Some p)
    \<and> (List.find (\<lambda>e. is_file e \<and> entry_name e = wanted) entries = None \<longrightarrow>
         (\<forall>f. files = [f] \<longrightarrow> find_bird_binary entries want_windows = Some f)
       \<and> (length files \<noteq> 1 \<and> \<not> want_windows \<longrightarrow>
            find_bird_binary entries want_windows =
              List.find (\<lambda>e. case st_mode e of None \<Rightarrow> False
                          | Some m \<Rightarrow> m AND 64 \<noteq> 0 \<and> startswith (lower (entry_name e)) ''bird'')
                files)
       \<and> (length files \<noteq> 1 \<and> want_windows \<longrightarrow>
            find_bird_binary entries want_windows = None))"
proof -
  have pref: "find_preferred (if want_windows then [''bird.exe''] else [''bird'']) entries
      = List.find (\<lambda>e. is_file e \<and> entry_name e = wanted) entries"
    by (simp add: find_preferred_find wanted_def)
  show ?thesis
    unfolding find_bird_binary_def Let_def pref files_def [symmetric]
    by (auto simp: find_executable_find)
qed

theorem find_bird_binary_strategies_witness:
  "find_bird_binary [ex_dir, ex_readme, ex_bird] False = Some ex_bird
   \<and> find_bird_binary [ex_dir, ex_payload] False = Some ex_payload
   \<and> find_bird_binary [ex_dir, ex_payload] True = Some ex_payload
   \<and> find_bird_binary [ex_readme, ex_bird_cli] False = Some ex_bird_cli
   \<and> find_bird_binary [ex_readme, ex_bird_cli] True = None"
proof -
  have a: "List.find (\<lambda>e. is_file e \<and> entry_name e = ''bird'') [ex_dir, ex_readme, ex_bird] = Some ex_bird"
    by (simp add: locator_eval)
  have b: "List.find (\<lambda>e. is_file e \<and> entry_name e = ''bird'') [ex_dir, ex_payload] = None"
    "filter is_file [ex_dir, ex_payload] = [ex_payload]"
    by (simp_all add: locator_eval)
  have c: "List.find (\<lambda>e. is_file e \<and> entry_name e = ''bird.exe'') [ex_dir, ex_payload] = None"
    by (simp add: locator_eval)
  have d: "List.find (\<lambda>e. is_file e \<and> entry_name e = ''bird'') [ex_readme, ex_bird_cli] = None"
    "List.find (\<lambda>e. is_file e \<and> entry_name e = ''bird.exe'') [ex_readme, ex_bird_cli] = None"
    "length (filter is_file [ex_readme, ex_bird_cli]) \<noteq> 1"
    by (simp_all add: locator_eval)
  have e: "List.find (\<lambda>e. case st_mode e of None \<Rightarrow> False
                          | Some m \<Rightarrow> m AND 64 \<noteq> 0 \<and> startswith (lower (entry_name e)) ''bird'')
             (filter is_file [ex_readme, ex_bird_cli]) = Some ex_bird_cli"
    by (simp add: locator_eval)
  from find_bird_binary_strategies [of False "[ex_dir, ex_readme, ex_bird]"] a
  have 1: "find_bird_binary [ex_dir, ex_readme, ex_bird] False = Some ex_bird" by simp
  from find_bird_binary_strategies [of False "[ex_dir, ex_payload]"] b
  have 2: "find_bird_binary [ex_dir, ex_payload] False = Some ex_payload" by simp
  from find_bird_binary_strategies [of True "[ex_dir, ex_payload]"] b c
  have 3: "find_bird_binary [ex_dir, ex_payload] True = Some ex_payload" by simp
  from find_bird_binary_strategies [of False "[ex_readme, ex_bird_cli]"] d e
  have 4: "find_bird_binary [ex_readme, ex_bird_cli] False = Some ex_bird_cli" by simp
  from find_bird_binary_strategies [of True "[ex_readme, ex_bird_cli]"] d
  have 5: "find_bird_binary [ex_readme, ex_bird_cli] True = None" by simp
  from 1 2 3 4 5 show ?thesis by blast
qed

section \<open>Claims about the Archive Extractor\<close>

text \<open>
  Claim C2 says that a member whose resolved destination is not a descendant of the
  scratch directory makes the extraction raise the unsafe member path error before any
  member is written. The guard compares the two paths as strings, with
  \<^verbatim>\<open>str(p).startswith(str(out_dir.resolve()))\<close>. With the scratch directory
  /tmp/abc and a gzip tar archive whose only member is named ../abcevil/x, the member
  resolves to /tmp/abcevil/x, which is not inside /tmp/abc; its string starts with
  /tmp/abc all the same, so the guard raises nothing and the extractor goes on to
  \<^verbatim>\<open>tf.extractall(out_dir)\<close>. The other direction of the claim holds: lemma
  \<open>guard_loop_accepts_within\<close> shows that members that resolve inside the scratch
  directory are never rejected, and \<open>guard_rejects_dotdot_evil\<close> that ../../evil is.
\<close>

theorem guard_passes_sibling_with_common_prefix:
  "joined_resolved [''tmp'', ''abc''] ''../abcevil/x'' = [''tmp'', ''abcevil'', ''x'']
   \<and> \<not> within (joined_resolved [''tmp'', ''abc''] ''../abcevil/x'') [''tmp'', ''abc'']
   \<and> tar_getmembers ex_world_evil [31, 139, 8] = Inr [''../abcevil/x'']
   \<and> extract_to_dir ex_world_evil [31, 139, 8] ''evil.tar.gz'' [''tmp'', ''abc'']
       = Inr (TarExtractAll [31, 139, 8] [''tmp'', ''abc''])"
  by (simp add: extractor_eval ex_world_evil_def ex_world_def)

section \<open>Claims about the Orchestrator\<close>



text \<open>
  Claim C8. When the release document has no assets (the key is missing, null or an
  empty list), the run prints a diagnostic and exits with code 1. When the loop reaches
  a target for which the selected asset record has no download URL (missing, null or
  empty) or no name, the run prints a diagnostic and exits with code 1, whether or not
  the target is required. The selector never returns an asset without a name, so only
  the missing URL can occur.
\<close>

theorem no_assets_or_invalid_asset_is_fatal:
  "(http_json w (release_url w) = Inr rel
      \<and> (rel_assets rel = None \<or> rel_assets rel = Some [])
     \<longrightarrow> script w
          = (1, print_err init_state ''vendor_bird: no assets found in upstream release''))
   \<and> (http_json w (release_url w) = Inr rel \<and> rel_assets rel = Some assets
      \<and> mkdir_out_root w = None
      \<and> targets (require_windows w) = pre @ (goos, goarch, required) # rest
      \<and> run_targets w assets pre init_state = Continue st
      \<and> pick_asset assets goos goarch = Inr (Some a)
      \<and> (browser_download_url a = None \<or> browser_download_url a = Some []
          \<or> name_or_empty a = [])
     \<longrightarrow> script w
          = (1, print_err st (''vendor_bird: invalid asset for '' @ goos @ ''/'' @ goarch)))"
proof (intro conjI impI)
  assume "http_json w (release_url w) = Inr rel
      \<and> (rel_assets rel = None \<or> rel_assets rel = Some [])"
  then have "main w
      = (Returned 1, print_err init_state ''vendor_bird: no assets found in upstream release'')"
    by (auto simp: main_def)
  then show "script w
      = (1, print_err init_state ''vendor_bird: no assets found in upstream release'')"
    by (simp add: script_def)
next
  assume h: "http_json w (release_url w) = Inr rel \<and> rel_assets rel = Some assets
      \<and> mkdir_out_root w = None
      \<and> targets (require_windows w) = pre @ (goos, goarch, required) # rest
      \<and> run_targets w assets pre init_state = Continue st
      \<and> pick_asset assets goos goarch = Inr (Some a)
      \<and> (browser_download_url a = None \<or> browser_download_url a = Some []
          \<or> name_or_empty a = [])"
  then have pick: "pick_asset assets goos goarch = Inr (Some a)" by blast
  then obtain ost art where ne: "matches_loop ost art assets \<noteq> []" by (rule pick_asset_Some)
  then have ne: "assets \<noteq> []" by auto
  from h have inv: "browser_download_url a = None \<or> browser_download_url a = Some []
          \<or> name_or_empty a = []" by blast
  from h have pre: "run_targets w assets pre init_state = Continue st" by blast
  have "run_targets w assets (pre @ (goos, goarch, required) # rest) init_state
      = Stop (Returned 1) (print_err st (''vendor_bird: invalid asset for '' @ goos @ ''/'' @ goarch))"
    by (simp add: run_targets_append [OF pre] process_target_invalid [OF pick inv])
  with h have "run_targets w assets (targets (require_windows w)) init_state
      = Stop (Returned 1) (print_err st (''vendor_bird: invalid asset for '' @ goos @ ''/'' @ goarch))"
    by simp
  moreover from h ne have "main w =
     (case run_targets w assets (targets (require_windows w)) init_state of
        Stop out st \<Rightarrow> (out, st) | Continue st \<Rightarrow> (Returned 0, st))"
    by (intro main_loop) auto
  ultimately have "main w
      = (Returned 1, print_err st (''vendor_bird: invalid asset for '' @ goos @ ''/'' @ goarch))"
    by simp
  then show "script w
      = (1, print_err st (''vendor_bird: invalid asset for '' @ goos @ ''/'' @ goarch))"
    by (simp add: script_def)
qed

theorem no_assets_or_invalid_asset_is_fatal_witness:
  "script ex_world_empty
     = (1, print_err init_state ''vendor_bird: no assets found in upstream release'')
   \<and> \<not> require_windows (ex_world (ex_env (Some ''0'')) ex_release_nourl)
   \<and> script (ex_world (ex_env (Some ''0'')) ex_release_nourl)
     = (1, print_err ex_state4 ''vendor_bird: invalid asset for windows/amd64'')"
proof -
  have j0: "http_json ex_world_empty (release_url ex_world_empty) = Inr \<lparr>rel_assets = Some []\<rparr>"
    by (simp add: http_json_def ex_world_empty_def ex_world_def)
  from no_assets_or_invalid_asset_is_fatal [of ex_world_empty "\<lparr>rel_assets = Some []\<rparr>"] j0
  have a: "script ex_world_empty
     = (1, print_err init_state ''vendor_bird: no assets found in upstream release'')"
    by simp
  define w where "w = ex_world (ex_env (Some ''0'')) ex_release_nourl"
  have nr: "\<not> require_windows w" unfolding w_def by (rule ex_not_required)
  have j: "http_json w (release_url w) = Inr \<lparr>rel_assets = Some ex_release_nourl\<rparr>"
    by (simp add: http_json_def w_def ex_world_def)
  have mk: "mkdir_out_root w = None" by (simp add: w_def ex_world_def)
  have ts: "targets (require_windows w)
      = required_targets @ (''windows'', ''amd64'', False) # [(''windows'', ''arm64'', False)]"
    using nr by (simp add: targets_split)
  have run: "run_targets w ex_release_nourl required_targets init_state = Continue ex_state4"
    unfolding w_def by (rule ex_run_required_nourl)
  have u: "browser_download_url ex_windows_nourl = None" by (simp add: ex_windows_nourl_def)
  from no_assets_or_invalid_asset_is_fatal
    [of w "\<lparr>rel_assets = Some ex_release_nourl\<rparr>" ex_release_nourl required_targets
        "''windows''" "''amd64''" False "[(''windows'', ''arm64'', False)]" ex_state4
        ex_windows_nourl]
    j mk ts run u ex_release_nourl_picks(5)
  have "script w = (1, print_err ex_state4 (''vendor_bird: invalid asset for '' @ ''windows'' @ ''/'' @ ''amd64''))"
    by simp
  then have b: "script w = (1, print_err ex_state4 ''vendor_bird: invalid asset for windows/amd64'')"
    by simp
  from a nr b show ?thesis unfolding w_def by blast
qed

text \<open>
  Claim C4. When the run exits with code 0, every required target has exactly one
  staged binary at its output path, and every other target has at most one, so a
  non-required target may be left without a staged binary. Every fatal condition ends
  the run with exit code 1 after a diagnostic on the error stream: a failed fetch of the
  release document, a release without assets, a failure to create the output directory,
  and, at whatever target the loop has reached, an exception of the selector, no asset
  or no located binary for a required target, an invalid asset record, and a failed
  download, extraction (which includes the unsafe member path error), listing or copy,
  the last four whether or not the target is required. The diagnostic is the
  vendor_bird line of the script, or the traceback of the interpreter after the lines
  printed so far. No run exits with a code other than 0 and 1.
\<close>

theorem exit_code_and_staged_targets:
  "(\<forall>st. script w = (0, st) \<longrightarrow>
      (\<forall>(goos, goarch, required) \<in> set (targets (require_windows w)).
          length (filter (\<lambda>p. fst p = dst_path goos goarch) (staged st)) \<le> 1
        \<and> (required \<longrightarrow>
              length (filter (\<lambda>p. fst p = dst_path goos goarch) (staged st)) = 1)))
   \<and> (http_json w (release_url w) = Inl e \<longrightarrow> script w = uncaught w init_state e)
   \<and> (http_json w (release_url w) = Inr rel
        \<and> (rel_assets rel = None \<or> rel_assets rel = Some [])
       \<longrightarrow> script w
            = (1, print_err init_state ''vendor_bird: no assets found in upstream release''))
   \<and> (http_json w (release_url w) = Inr rel \<and> rel_assets rel = Some assets \<and> assets \<noteq> []
        \<and> mkdir_out_root w = Some e
       \<longrightarrow> script w = uncaught w init_state e)
   \<and> (reaches w rel assets pre (goos, goarch, required) rest st \<longrightarrow>
        (pick_asset assets goos goarch = Inl e \<longrightarrow> script w = uncaught w st e)
      \<and> (pick_asset assets goos goarch = Inr None \<and> required \<longrightarrow>
           script w
             = (1, print_err st (''vendor_bird: no matching asset for '' @ goos @ ''/'' @ goarch)))
      \<and> (pick_asset assets goos goarch = Inr (Some a)
           \<and> (browser_download_url a = None \<or> browser_download_url a = Some []
               \<or> name_or_empty a = [])
          \<longrightarrow> script w
               = (1, print_err st (''vendor_bird: invalid asset for '' @ goos @ ''/'' @ goarch)))
      \<and> (valid_pick assets goos goarch a u \<longrightarrow>
           (download w u = Inl e \<longrightarrow> script w = uncaught w (downloading st a goos goarch) e)
         \<and> (download w u = Inr payload \<longrightarrow>
              (extract_to_dir w payload (name_or_empty a) (mkdtemp w goos goarch) = Inl e
                 \<longrightarrow> script w = uncaught w (downloading st a goos goarch) e)
            \<and> (extract_to_dir w payload (name_or_empty a) (mkdtemp w goos goarch) = Inr act
                 \<longrightarrow>
                 (extracted_tree w act = Inl e
                    \<longrightarrow> script w = uncaught w (downloading st a goos goarch) e)
               \<and> (extracted_tree w act = Inr entries \<longrightarrow>
                    (find_bird_binary entries (goos = ''windows'') = None \<and> required
                       \<longrightarrow> script w
                            = (1, print_err (downloading st a goos goarch)
                                    (''vendor_bird: could not locate bird binary after extracting ''
                                       @ name_or_empty a)))
                  \<and> (find_bird_binary entries (goos = ''windows'') = Some b
                      \<and> copy2 w (entry_path b) (dst_path goos goarch) = Some e
                       \<longrightarrow> script w = uncaught w (downloading st a goos goarch) e))))))
   \<and> (fst (script w) = 0
      \<or> (fst (script w) = 1 \<and> stderr (snd (script w)) \<noteq> []
         \<and> (startswith (last (stderr (snd (script w)))) ''vendor_bird: ''
            \<or> traceback_header \<in> set (stderr (snd (script w))))))"
  (is "?zero \<and> ?fetch \<and> ?empty \<and> ?mkdir \<and> ?loop \<and> ?either")
proof -
  have zero: ?zero
  proof (intro allI impI)
    fix st assume "script w = (0, st)"
    then have "main w = (Returned 0, st)" by (rule script_0)
    from main_Returned_0 [OF this] obtain assets
      where run: "run_targets w assets (targets (require_windows w)) init_state = Continue st"
      by blast
    note c = run_targets_cnt [OF run distinct_target_dst]
    have z: "cnt d init_state = 0" for d by (simp add: cnt_def init_state_def)
    show "\<forall>(goos, goarch, required) \<in> set (targets (require_windows w)).
            length (filter (\<lambda>p. fst p = dst_path goos goarch) (staged st)) \<le> 1
          \<and> (required \<longrightarrow>
                length (filter (\<lambda>p. fst p = dst_path goos goarch) (staged st)) = 1)"
    proof (intro ballI, clarify)
      fix goos goarch required
      assume t: "(goos, goarch, required) \<in> set (targets (require_windows w))"
      with c have "cnt (target_dst (goos, goarch, required)) st
            \<le> cnt (target_dst (goos, goarch, required)) init_state + 1
          \<and> (snd (snd (goos, goarch, required)) \<longrightarrow>
                cnt (target_dst (goos, goarch, required)) st
                  = cnt (target_dst (goos, goarch, required)) init_state + 1)"
        by blast
      then show "length (filter (\<lambda>p. fst p = dst_path goos goarch) (staged st)) \<le> 1
          \<and> (required \<longrightarrow>
                length (filter (\<lambda>p. fst p = dst_path goos goarch) (staged st)) = 1)"
        unfolding z by (simp add: target_dst_def cnt_def)
    qed
  qed
  have fetch: ?fetch by (simp add: script_def main_def)
  have empty: ?empty by (auto simp: script_def main_def)
  have mkdir: ?mkdir by (auto simp: script_def main_def)
  have loop: ?loop
  proof
    assume r: "reaches w rel assets pre (goos, goarch, required) rest st"
    note stop = reaches_stop [OF r]
    have 1: "pick_asset assets goos goarch = Inl e \<longrightarrow> script w = uncaught w st e"
    proof
      assume "pick_asset assets goos goarch = Inl e"
      then have "process_target w assets (goos, goarch, required) st = Stop (Raised e) st"
        by (simp add: process_target_def)
      from stop [OF this] show "script w = uncaught w st e" by simp
    qed
    have 2: "pick_asset assets goos goarch = Inr None \<and> required \<longrightarrow>
           script w
             = (1, print_err st (''vendor_bird: no matching asset for '' @ goos @ ''/'' @ goarch))"
    proof
      assume a: "pick_asset assets goos goarch = Inr None \<and> required"
      then have "process_target w assets (goos, goarch, required) st
          = Stop (Returned 1)
              (print_err st (''vendor_bird: no matching asset for '' @ goos @ ''/'' @ goarch))"
        by (simp add: process_target_no_asset)
      from stop [OF this] show "script w
             = (1, print_err st (''vendor_bird: no matching asset for '' @ goos @ ''/'' @ goarch))"
        by simp
    qed
    have 3: "pick_asset assets goos goarch = Inr (Some a)
           \<and> (browser_download_url a = None \<or> browser_download_url a = Some []
               \<or> name_or_empty a = [])
          \<longrightarrow> script w
               = (1, print_err st (''vendor_bird: invalid asset for '' @ goos @ ''/'' @ goarch))"
    proof
      assume a: "pick_asset assets goos goarch = Inr (Some a)
           \<and> (browser_download_url a = None \<or> browser_download_url a = Some []
               \<or> name_or_empty a = [])"
      then have "process_target w assets (goos, goarch, required) st
          = Stop (Returned 1)
              (print_err st (''vendor_bird: invalid asset for '' @ goos @ ''/'' @ goarch))"
        by (intro process_target_invalid) blast+
      from stop [OF this] show "script w
               = (1, print_err st (''vendor_bird: invalid asset for '' @ goos @ ''/'' @ goarch))"
        by simp
    qed
    have 4: "valid_pick assets goos goarch a u \<longrightarrow>
           (download w u = Inl e \<longrightarrow> script w = uncaught w (downloading st a goos goarch) e)
         \<and> (download w u = Inr payload \<longrightarrow>
              (extract_to_dir w payload (name_or_empty a) (mkdtemp w goos goarch) = Inl e
                 \<longrightarrow> script w = uncaught w (downloading st a goos goarch) e)
            \<and> (extract_to_dir w payload (name_or_empty a) (mkdtemp w goos goarch) = Inr act
                 \<longrightarrow>
                 (extracted_tree w act = Inl e
                    \<longrightarrow> script w = uncaught w (downloading st a goos goarch) e)
               \<and> (extracted_tree w act = Inr entries \<longrightarrow>
                    (find_bird_binary entries (goos = ''windows'') = None \<and> required
                       \<longrightarrow> script w
                            = (1, print_err (downloading st a goos goarch)
                                    (''vendor_bird: could not locate bird binary after extracting ''
                                       @ name_or_empty a)))
                  \<and> (find_bird_binary entries (goos = ''windows'') = Some b
                      \<and> copy2 w (entry_path b) (dst_path goos goarch) = Some e
                       \<longrightarrow> script w = uncaught w (downloading st a goos goarch) e))))"
    proof
      assume v: "valid_pick assets goos goarch a u"
      note pt = process_target_valid [OF v, of w required st]
      have d: "download w u = Inl e \<longrightarrow> script w = uncaught w (downloading st a goos goarch) e"
      proof
        assume "download w u = Inl e"
        with pt have "process_target w assets (goos, goarch, required) st
            = Stop (Raised e) (downloading st a goos goarch)" by simp
        from stop [OF this] show "script w = uncaught w (downloading st a goos goarch) e" by simp
      qed
      have x: "download w u = Inr payload \<longrightarrow>
              (extract_to_dir w payload (name_or_empty a) (mkdtemp w goos goarch) = Inl e
                 \<longrightarrow> script w = uncaught w (downloading st a goos goarch) e)
            \<and> (extract_to_dir w payload (name_or_empty a) (mkdtemp w goos goarch) = Inr act
                 \<longrightarrow>
                 (extracted_tree w act = Inl e
                    \<longrightarrow> script w = uncaught w (downloading st a goos goarch) e)
               \<and> (extracted_tree w act = Inr entries \<longrightarrow>
                    (find_bird_binary entries (goos = ''windows'') = None \<and> required
                       \<longrightarrow> script w
                            = (1, print_err (downloading st a goos goarch)
                                    (''vendor_bird: could not locate bird binary after extracting ''
                                       @ name_or_empty a)))
                  \<and> (find_bird_binary entries (goos = ''windows'') = Some b
                      \<and> copy2 w (entry_path b) (dst_path goos goarch) = Some e
                       \<longrightarrow> script w = uncaught w (downloading st a goos goarch) e)))"
      proof (intro impI conjI)
        assume dl: "download w u = Inr payload"
          and "extract_to_dir w payload (name_or_empty a) (mkdtemp w goos goarch) = Inl e"
        with pt have "process_target w assets (goos, goarch, required) st
            = Stop (Raised e) (downloading st a goos goarch)" by simp
        from stop [OF this] show "script w = uncaught w (downloading st a goos goarch) e" by simp
      next
        assume dl: "download w u = Inr payload"
          and ex: "extract_to_dir w payload (name_or_empty a) (mkdtemp w goos goarch) = Inr act"
          and "extracted_tree w act = Inl e"
        with pt have "process_target w assets (goos, goarch, required) st
            = Stop (Raised e) (downloading st a goos goarch)" by simp
        from stop [OF this] show "script w = uncaught w (downloading st a goos goarch) e" by simp
      next
        assume dl: "download w u = Inr payload"
          and ex: "extract_to_dir w payload (name_or_empty a) (mkdtemp w goos goarch) = Inr act"
          and tr: "extracted_tree w act = Inr entries"
          and "find_bird_binary entries (goos = ''windows'') = None \<and> required"
        with pt have "process_target w assets (goos, goarch, required) st
            = Stop (Returned 1)
                (print_err (downloading st a goos goarch)
                   (''vendor_bird: could not locate bird binary after extracting ''
                      @ name_or_empty a))" by simp
        from stop [OF this] show "script w
            = (1, print_err (downloading st a goos goarch)
                    (''vendor_bird: could not locate bird binary after extracting ''
                       @ name_or_empty a))" by simp
      next
        assume dl: "download w u = Inr payload"
          and ex: "extract_to_dir w payload (name_or_empty a) (mkdtemp w goos goarch) = Inr act"
          and tr: "extracted_tree w act = Inr entries"
          and "find_bird_binary entries (goos = ''windows'') = Some b
                \<and> copy2 w (entry_path b) (dst_path goos goarch) = Some e"
        with pt have "process_target w assets (goos, goarch, required) st
            = Stop (Raised e) (downloading st a goos goarch)" by simp
        from stop [OF this] show "script w = uncaught w (downloading st a goos goarch) e" by simp
      qed
      from d x show "(download w u = Inl e \<longrightarrow> script w = uncaught w (downloading st a goos goarch) e)
         \<and> (download w u = Inr payload \<longrightarrow>
              (extract_to_dir w payload (name_or_empty a) (mkdtemp w goos goarch) = Inl e
                 \<longrightarrow> script w = uncaught w (downloading st a goos goarch) e)
            \<and> (extract_to_dir w payload (name_or_empty a) (mkdtemp w goos goarch) = Inr act
                 \<longrightarrow>
                 (extracted_tree w act = Inl e
                    \<longrightarrow> script w = uncaught w (downloading st a goos goarch) e)
               \<and> (extracted_tree w act = Inr entries \<longrightarrow>
                    (find_bird_binary entries (goos = ''windows'') = None \<and> required
                       \<longrightarrow> script w
                            = (1, print_err (downloading st a goos goarch)
                                    (''vendor_bird: could not locate bird binary after extracting ''
                                       @ name_or_empty a)))
                  \<and> (find_bird_binary entries (goos = ''windows'') = Some b
                      \<and> copy2 w (entry_path b) (dst_path goos goarch) = Some e
                       \<longrightarrow> script w = uncaught w (downloading st a goos goarch) e))))"
        by (rule conjI)
    qed
    from 1 2 3 4 show "(pick_asset assets goos goarch = Inl e \<longrightarrow> script w = uncaught w st e)
      \<and> (pick_asset assets goos goarch = Inr None \<and> required \<longrightarrow>
           script w
             = (1, print_err st (''vendor_bird: no matching asset for '' @ goos @ ''/'' @ goarch)))
      \<and> (pick_asset assets goos goarch = Inr (Some a)
           \<and> (browser_download_url a = None \<or> browser_download_url a = Some []
               \<or> name_or_empty a = [])
          \<longrightarrow> script w
               = (1, print_err st (''vendor_bird: invalid asset for '' @ goos @ ''/'' @ goarch)))
      \<and> (valid_pick assets goos goarch a u \<longrightarrow>
           (download w u = Inl e \<longrightarrow> script w = uncaught w (downloading st a goos goarch) e)
         \<and> (download w u = Inr payload \<longrightarrow>
              (extract_to_dir w payload (name_or_empty a) (mkdtemp w goos goarch) = Inl e
                 \<longrightarrow> script w = uncaught w (downloading st a goos goarch) e)
            \<and> (extract_to_dir w payload (name_or_empty a) (mkdtemp w goos goarch) = Inr act
                 \<longrightarrow>
                 (extracted_tree w act = Inl e
                    \<longrightarrow> script w = uncaught w (downloading st a goos goarch) e)
               \<and> (extracted_tree w act = Inr entries \<longrightarrow>
                    (find_bird_binary entries (goos = ''windows'') = None \<and> required
                       \<longrightarrow> script w
                            = (1, print_err (downloading st a goos goarch)
                                    (''vendor_bird: could not locate bird binary after extracting ''
                                       @ name_or_empty a)))
                  \<and> (find_bird_binary entries (goos = ''windows'') = Some b
                      \<and> copy2 w (entry_path b) (dst_path goos goarch) = Some e
                       \<longrightarrow> script w = uncaught w (downloading st a goos goarch) e)))))"
      by (intro conjI)
  qed
  have either: ?either
  proof -
    obtain out st where m: "main w = (out, st)" by (cases "main w") auto
    show ?thesis
    proof (cases "out = Returned 0")
      case True
      with m show ?thesis by (simp add: script_def)
    next
      case False
      from main_not_0 [OF m False] show ?thesis
      proof
        assume "out = Returned 1 \<and> stderr st \<noteq> [] \<and> startswith (last (stderr st)) ''vendor_bird: ''"
        with m show ?thesis by (simp add: script_def)
      next
        assume "\<exists>e. out = Raised e"
        then obtain e where "out = Raised e" ..
        with m have "script w = uncaught w st e" by (simp add: script_def)
        then show ?thesis by (simp add: uncaught_def)
      qed
    qed
  qed
  from zero fetch empty mkdir loop either show ?thesis by (intro conjI)
qed

theorem exit_code_and_staged_targets_witness:
  "script (ex_world (ex_env (Some ''0'')) ex_release) = (0, ex_state_skipped)
   \<and> \<not> require_windows (ex_world (ex_env (Some ''0'')) ex_release)
   \<and> length (filter (\<lambda>p. fst p = dst_path ''darwin'' ''amd64'') (staged ex_state_skipped)) = 1
   \<and> length (filter (\<lambda>p. fst p = dst_path ''linux'' ''arm64'') (staged ex_state_skipped)) = 1
   \<and> filter (\<lambda>p. fst p = dst_path ''windows'' ''amd64'') (staged ex_state_skipped) = []
   \<and> filter (\<lambda>p. fst p = dst_path ''windows'' ''arm64'') (staged ex_state_skipped) = []
   \<and> script ex_world_offline
       = (1, \<lparr>stderr = [''Traceback (most recent call last):'',
                         ''  File scripts/vendor_bird.py, line 226, in <module>'',
                         ''Exception''],
              staged = []\<rparr>)
   \<and> \<not> require_windows ex_world_down
   \<and> download ex_world_down ''https://h/6'' = Inl URLError
   \<and> script ex_world_down
       = (1, \<lparr>stderr = stderr ex_state4
                  @ [''vendor_bird: downloading bird_windows_amd64.zip for windows/amd64'',
                     ''Traceback (most recent call last):'',
                     ''  File scripts/vendor_bird.py, line 226, in <module>'',
                     ''Exception''],
              staged = staged ex_state4\<rparr>)"
proof -
  define w where "w = ex_world (ex_env (Some ''0'')) ex_release"
  have s: "script w = (0, ex_state_skipped)" unfolding w_def by (rule ex_script_optional)
  have nr: "\<not> require_windows w" unfolding w_def by (rule ex_not_required)
  from exit_code_and_staged_targets [where w = w, THEN conjunct1] s
  have all: "\<forall>(goos, goarch, required) \<in> set (targets (require_windows w)).
          length (filter (\<lambda>p. fst p = dst_path goos goarch) (staged ex_state_skipped)) \<le> 1
        \<and> (required \<longrightarrow>
              length (filter (\<lambda>p. fst p = dst_path goos goarch) (staged ex_state_skipped)) = 1)"
    by blast
  have m1: "(''darwin'', ''amd64'', True) \<in> set (targets (require_windows w))"
    and m2: "(''linux'', ''arm64'', True) \<in> set (targets (require_windows w))"
    by (simp_all add: targets_def)
  from bspec [OF all m1] bspec [OF all m2] have one:
    "length (filter (\<lambda>p. fst p = dst_path ''darwin'' ''amd64'') (staged ex_state_skipped)) = 1"
    "length (filter (\<lambda>p. fst p = dst_path ''linux'' ''arm64'') (staged ex_state_skipped)) = 1"
    by simp_all
  have none:
    "filter (\<lambda>p. fst p = dst_path ''windows'' ''amd64'') (staged ex_state_skipped) = []"
    "filter (\<lambda>p. fst p = dst_path ''windows'' ''arm64'') (staged ex_state_skipped) = []"
    by (simp_all add: ex_state_skipped_def ex_state4_def print_err_def dst_path_def)
  have off: "http_json ex_world_offline (release_url ex_world_offline) = Inl URLError"
    by (simp add: http_json_def ex_world_offline_def ex_world_def)
  from exit_code_and_staged_targets
    [where w = ex_world_offline and e = URLError, THEN conjunct2, THEN conjunct1, THEN mp, OF off]
  have o: "script ex_world_offline
       = (1, \<lparr>stderr = [''Traceback (most recent call last):'',
                         ''  File scripts/vendor_bird.py, line 226, in <module>'',
                         ''Exception''],
              staged = []\<rparr>)"
    by (simp add: uncaught_def traceback_header_def init_state_def ex_world_offline_def
          ex_world_def)
  have vp: "valid_pick ex_release_win ''windows'' ''amd64'' ex_windows_zip ''https://h/6''"
    by (simp add: valid_pick_def ex_release_win_picks)
       (simp add: ex_windows_zip_def name_or_empty_def)
  have dl: "download ex_world_down ''https://h/6'' = Inl URLError"
    by (simp add: download_def ex_world_down_def ex_world_def)
  from exit_code_and_staged_targets
    [where w = ex_world_down and e = URLError and assets = ex_release_win
       and goos = "''windows''" and goarch = "''amd64''" and a = ex_windows_zip
       and u = "''https://h/6''",
     THEN conjunct2, THEN conjunct2, THEN conjunct2, THEN conjunct2, THEN conjunct1,
     THEN mp, OF ex_down_reaches,
     THEN conjunct2, THEN conjunct2, THEN conjunct2, THEN mp, OF vp,
     THEN conjunct1, THEN mp, OF dl]
  have "script ex_world_down
      = uncaught ex_world_down (downloading ex_state4 ex_windows_zip ''windows'' ''amd64'') URLError" .
  then have d: "script ex_world_down
       = (1, \<lparr>stderr = stderr ex_state4
                  @ [''vendor_bird: downloading bird_windows_amd64.zip for windows/amd64'',
                     ''Traceback (most recent call last):'',
                     ''  File scripts/vendor_bird.py, line 226, in <module>'',
                     ''Exception''],
              staged = staged ex_state4\<rparr>)"
    by (simp add: uncaught_def traceback_header_def downloading_def print_err_def
          ex_world_down_def ex_world_def ex_windows_zip_def name_or_empty_def)
  from s nr one none o ex_down_not_required dl d show ?thesis unfolding w_def by (intro conjI)
qed

text \<open>
  Claim C1 says that with \<^verbatim>\<open>BIRDY_BUNDLE_WINDOWS\<close> unset the windows targets are
  best-effort, as the docstring of the script does (default \<^verbatim>\<open>"0"\<close>). The script
  reads the variable with the default \<^verbatim>\<open>"1"\<close>, so an unset variable makes them
  required. In the run below the variable is unset and the release holds one macos and
  one linux archive per architecture: the selector finds nothing for the windows
  targets, the four required targets are staged, and the run exits with code 1 after the
  line about windows/amd64. Lemma \<open>unset_no_windows_asset_exits_1\<close> shows the same for
  every such run; \<open>require_windows_set\<close> and \<open>windows_best_effort_when_set_to_other_value\<close>
  show that a variable that is set behaves as claimed, up to the stripping of
  whitespace.
\<close>

theorem windows_required_when_unset:
  "environ (ex_world (ex_env None) ex_release) ''BIRDY_BUNDLE_WINDOWS'' = None
   \<and> require_windows (ex_world (ex_env None) ex_release)
   \<and> pick_asset ex_release ''windows'' ''amd64'' = Inr None
   \<and> pick_asset ex_release ''windows'' ''arm64'' = Inr None
   \<and> run_targets (ex_world (ex_env None) ex_release) ex_release required_targets init_state
       = Continue ex_state4
   \<and> map fst (staged ex_state4)
       = [''bundled/bird/bird_darwin_amd64'', ''bundled/bird/bird_darwin_arm64'',
          ''bundled/bird/bird_linux_amd64'', ''bundled/bird/bird_linux_arm64'']
   \<and> script (ex_world (ex_env None) ex_release)
       = (1, print_err ex_state4 ''vendor_bird: no matching asset for windows/amd64'')"
proof -
  have e: "environ (ex_world (ex_env None) ex_release) ''BIRDY_BUNDLE_WINDOWS'' = None"
    by (simp add: ex_world_def ex_env_def)
  have m: "map fst (staged ex_state4)
       = [''bundled/bird/bird_darwin_amd64'', ''bundled/bird/bird_darwin_arm64'',
          ''bundled/bird/bird_linux_amd64'', ''bundled/bird/bird_linux_arm64'']"
    by (simp add: ex_state4_def)
  have h: "rel_assets \<lparr>rel_assets = Some ex_release\<rparr> = Some ex_release" by simp
  from e require_windows_unset [OF e] ex_no_windows_asset ex_run_required m
    unset_no_windows_asset_exits_1 [OF e ex_http_json h ex_mkdir ex_no_windows_asset(1)
      ex_run_required]
  show ?thesis by (intro conjI)
qed

end
